theory Spec2Isabelle
  imports Complex_Main
begin

section \<open>Backoff policy (dash\_socket.js)\<close>

text \<open>
  The reconnect delay of the dashboard socket.  A JavaScript number is a double; the
  attempt counter starts at 0 and is only ever incremented, so it is a natural number
  here.  \<open>5000 * 2 ** attempts\<close> is exact in a double until it overflows to
  \<open>Infinity\<close>, and \<open>Math.min\<close> of either with 60000 is what \<open>min\<close> on the
  naturals gives.
\<close>

definition RECONNECT_DELAY :: nat where
  "RECONNECT_DELAY = 5000"

definition MAX_RECONNECT_DELAY :: nat where
  "MAX_RECONNECT_DELAY = 60000"

definition exponentialBackoff :: "nat \<Rightarrow> nat" where
  "exponentialBackoff attempts = min (RECONNECT_DELAY * 2 ^ attempts) MAX_RECONNECT_DELAY"


section \<open>JSON values (what \<open>JSON.parse\<close> returns)\<close>

text \<open>
  A parsed frame is a JSON value.  \<open>JNum x\<close> stands for the number whose literal in
  the frame's text is the decimal \<open>x\<close>; the double that \<open>JSON.parse\<close> makes of it
  is \<open>to_double x\<close> below.  An object is the list of its own properties in the order
  \<open>Object.entries\<close> gives them.  \<open>undefined\<close> is not a JSON value: the value of an
  expression is a \<open>json option\<close> with \<open>None\<close> for \<open>undefined\<close>.
\<close>

datatype json =
    JNull
  | JBool bool
  | JNum rat
  | JStr string
  | JArr "json list"
  | JObj "(string \<times> json) list"

type_synonym jsval = "json option"

datatype error = SyntaxError | TypeError | InvalidStateError

text \<open>
  \<open>read_prop v name\<close> is \<open>v.name\<close> on a value that is not \<open>null\<close>, and \<open>get\<close> is the
  same read on any value: reading a property of \<open>null\<close> throws a TypeError.  Both are
  used only for the payload's field names, which no built-in prototype defines, so a
  primitive or an array has none of them.
\<close>

definition read_prop :: "json \<Rightarrow> string \<Rightarrow> jsval" where
  "read_prop v name = (case v of JObj props \<Rightarrow> map_of props name | _ \<Rightarrow> None)"

definition get :: "json \<Rightarrow> string \<Rightarrow> error + jsval" where
  "get v name = (if v = JNull then Inl TypeError else Inr (read_prop v name))"

subsection \<open>Numbers\<close>

text \<open>
  A JavaScript number is an IEEE 754 double, \<open>Infinity\<close>, \<open>-Infinity\<close> or \<open>NaN\<close>.  A
  finite double is held as the rational it is equal to.
\<close>

datatype number = Finite rat | PosInfinity | NegInfinity | NaN

function bitlen :: "int \<Rightarrow> int" where
  "bitlen n = (if n \<le> 0 then 0 else 1 + bitlen (n div 2))"
  by pat_completeness auto
termination
  by (relation "measure nat") auto

declare bitlen.simps [simp del]

definition pow2 :: "int \<Rightarrow> rat" where
  "pow2 e = (if 0 \<le> e then 2 ^ nat e else 1 / 2 ^ nat (- e))"

text \<open>The exponent of a positive rational: the \<open>e\<close> with \<open>2 ^ e \<le> x < 2 ^ (e + 1)\<close>.\<close>

definition ilog2 :: "rat \<Rightarrow> int" where
  "ilog2 x =
     (let (p, q) = quotient_of x;
          d = bitlen p - bitlen q
      in if pow2 d \<le> x then d else d - 1)"

definition round_half_even :: "rat \<Rightarrow> int" where
  "round_half_even x =
     (let n = \<lfloor>x\<rfloor>; d = x - of_int n
      in if d < 1 / 2 then n
         else if 1 / 2 < d then n + 1
         else if even n then n else n + 1)"

text \<open>
  The double nearest to a rational, ties to the even significand: 53 bits of
  significand, exponents from \<open>-1022\<close> (below it the spacing stays \<open>2 ^ -1074\<close>) to
  \<open>1023\<close>, and infinity from \<open>2 ^ 1024\<close> on.  This is the value of a number literal
  and the result of an arithmetic operation on doubles.
\<close>

definition to_double :: "rat \<Rightarrow> number" where
  "to_double x =
     (if x = 0 then Finite 0
      else
        (let a = \<bar>x\<bar>;
             e = max (ilog2 a) (- 1022);
             q = pow2 (e - 52);
             r = of_int (round_half_even (a / q)) * q
         in if pow2 1024 \<le> r then (if x < 0 then NegInfinity else PosInfinity)
            else Finite (if x < 0 then - r else r)))"

fun negative :: "number \<Rightarrow> bool" where
  "negative (Finite a) = (a < 0)"
| "negative NegInfinity = True"
| "negative x = False"

text \<open>\<open>x * y\<close> on numbers.\<close>

fun multiply :: "number \<Rightarrow> number \<Rightarrow> number" where
  "multiply (Finite a) (Finite b) = to_double (a * b)"
| "multiply x y =
     (if x = NaN \<or> y = NaN \<or> x = Finite 0 \<or> y = Finite 0 then NaN
      else if negative x = negative y then PosInfinity else NegInfinity)"

fun truthy :: "json \<Rightarrow> bool" where
  "truthy JNull = False"
| "truthy (JBool b) = b"
| "truthy (JNum x) = (to_double x \<noteq> Finite 0)"
| "truthy (JStr s) = (s \<noteq> [])"
| "truthy (JArr xs) = True"
| "truthy (JObj props) = True"

subsection \<open>\<open>Number.prototype.toFixed\<close>\<close>

function digits :: "int \<Rightarrow> string" where
  "digits n =
     (if n < 10 then [char_of (48 + n)]
      else digits (n div 10) @ [char_of (48 + n mod 10)])"
  by pat_completeness auto
termination
  by (relation "measure nat") auto

declare digits.simps [simp del]

text \<open>
  \<open>Number::toString\<close> for a double \<open>x\<close> of at least \<open>10 ^ 21\<close>: the fewest digits
  \<open>s\<close> (\<open>k\<close> of them) and the \<open>n\<close> for which \<open>s * 10 ^ (n - k)\<close> is a literal of
  \<open>x\<close>, the nearest to \<open>x\<close> when two \<open>s\<close> of that length are; printed as
  \<open>d.ddde+(n-1)\<close>.  \<open>candidate x n k\<close> looks among the \<open>k\<close>-digit numbers, where
  \<open>n\<close> is the number of digits of \<open>x\<close>; seventeen digits always suffice.
\<close>

definition candidate :: "rat \<Rightarrow> nat \<Rightarrow> nat \<Rightarrow> (int \<times> nat) option" where
  "candidate x n k =
     (let q = 10 ^ (n - k);
          lo = \<lfloor>x / q\<rfloor>;
          hi = lo + 1;
          lo_ok = (to_double (of_int lo * q) = Finite x);
          hi_ok = (to_double (of_int hi * q) = Finite x);
          dlo = x - of_int lo * q;
          dhi = of_int hi * q - x;
          s = (if lo_ok \<and> hi_ok then
                 (if dlo < dhi then lo else if dhi < dlo then hi
                  else if even lo then lo else hi)
               else if lo_ok then lo else hi)
      in if lo_ok \<or> hi_ok then Some (if s = 10 ^ k then (1, Suc n) else (s, n))
         else None)"

primrec shortest :: "nat \<Rightarrow> rat \<Rightarrow> nat \<Rightarrow> nat \<Rightarrow> int \<times> nat" where
  "shortest 0 x n k = (\<lfloor>x / 10 ^ (n - k)\<rfloor>, n)"
| "shortest (Suc fuel) x n k =
     (case candidate x n k of
        Some r \<Rightarrow> r
      | None \<Rightarrow> shortest fuel x n (Suc k))"

definition NumberToString :: "rat \<Rightarrow> string" where
  "NumberToString x =
     (let n = length (digits \<lfloor>x\<rfloor>);
          (s, n') = shortest 17 x n 1;
          m = digits s
      in (if length m = 1 then m else take 1 m @ ''.'' @ drop 1 m)
         @ ''e+'' @ digits (int n' - 1))"

text \<open>
  \<open>v.toFixed(f)\<close>, for \<open>f\<close> from 0 to 100: a value that is not finite prints as its
  name; otherwise the sign, then, below \<open>10 ^ 21\<close>, the integer nearest to
  \<open>\<bar>x\<bar> * 10 ^ f\<close> (the larger one on a tie) written with \<open>f\<close> digits after the
  point, and from \<open>10 ^ 21\<close> on what \<open>Number::toString\<close> prints.
\<close>

definition toFixed :: "nat \<Rightarrow> number \<Rightarrow> string" where
  "toFixed f v =
     (case v of
        NaN \<Rightarrow> ''NaN''
      | PosInfinity \<Rightarrow> ''Infinity''
      | NegInfinity \<Rightarrow> ''-Infinity''
      | Finite x \<Rightarrow>
          (let a = \<bar>x\<bar>;
               m = (if 10 ^ 21 \<le> a then NumberToString a
                    else
                      (let n = \<lfloor>a * 10 ^ f + 1 / 2\<rfloor>;
                           m = digits n
                       in if f = 0 then m
                          else (let z = replicate (Suc f - length m) CHR ''0'' @ m;
                                    k = length z - f
                                in take k z @ ''.'' @ drop k z)))
           in if x < 0 then ''-'' @ m else m))"

section \<open>Dashboard widgets (dash\_socket.js, \<open>updateDashboard\<close>)\<close>

text \<open>
  The elements \<open>updateDashboard\<close> looks up.  \<open>MarketBreadth\<close> and
  \<open>VolatilityChange\<close> are the spans found by \<open>querySelector\<close>; the two \<open>Tail\<close>
  elements are the text that follows each span inside its \<open>small\<close> parent
  (\<open>parentElement.lastChild\<close>).
\<close>

datatype element =
    MarketStatusValue
  | MarketBreadth
  | MarketBreadthTail
  | VolatilityValue
  | VolatilityChange
  | VolatilityChangeTail
  | AlertsValue
  | AlertsDetails
  | SessionActivityValue
  | SessionDetails

text \<open>
  What an element holds.  A template literal is kept as a constructor that carries the
  values of its \<open>${...}\<close> holes: the markup is a function of exactly these values.
  \<open>Template\<close> is fixed text (the page as served, or a string constant of the script),
  \<open>Text v\<close> is \<open>textContent = v\<close>, \<open>TextSum a b\<close> is \<open>textContent = a + b\<close>.
  \<open>InnerText v\<close> and \<open>Interpolated vs\<close> are what the template script of the next
  section writes: \<open>innerText = v\<close>, and \<open>innerHTML\<close> set to the template literal of
  the statement, the expressions in its holes being computed from the values \<open>vs\<close>.
\<close>

datatype content =
    Template string
  | Text json
  | InnerText jsval
  | Interpolated "jsval list"
  | TextSum jsval jsval
  | BreadthMarkup string
  | VolatilityChangeMarkup json
  | SignalsMarkup jsval jsval jsval
  | SessionMarkup jsval

text \<open>The page: \<open>None\<close> for an element the page does not have.\<close>

type_synonym widgets = "element \<Rightarrow> content option"

text \<open>
  A statement runs on the widgets and either completes or throws; what it had written
  before it threw stays written.
\<close>

type_synonym outcome = "widgets \<times> error option"

definition andThen :: "'s \<times> error option \<Rightarrow> ('s \<Rightarrow> 's \<times> error option) \<Rightarrow> 's \<times> error option" where
  "andThen r f = (case r of (w, None) \<Rightarrow> f w | (w, Some e) \<Rightarrow> (w, Some e))"

text \<open>\<open>if (marketStatusEl && data.market_status) { ... }\<close>\<close>

definition update_market_status :: "json \<Rightarrow> widgets \<Rightarrow> outcome" where
  "update_market_status data w =
     (case w MarketStatusValue of
        None \<Rightarrow> (w, None)
      | Some _ \<Rightarrow>
          (case get data ''market_status'' of
             Inl e \<Rightarrow> (w, Some e)
           | Inr None \<Rightarrow> (w, None)
           | Inr (Some v) \<Rightarrow>
               if truthy v then (w(MarketStatusValue \<mapsto> Text v), None) else (w, None)))"

text \<open>\<open>if (marketBreadthEl && data.breadth_pct !== undefined) { ... }\<close>;
  \<open>toFixed\<close> exists on numbers only.\<close>

definition update_breadth :: "json \<Rightarrow> widgets \<Rightarrow> outcome" where
  "update_breadth data w =
     (case w MarketBreadth of
        None \<Rightarrow> (w, None)
      | Some _ \<Rightarrow>
          (case get data ''breadth_pct'' of
             Inl e \<Rightarrow> (w, Some e)
           | Inr None \<Rightarrow> (w, None)
           | Inr (Some (JNum x)) \<Rightarrow>
               (w(MarketBreadth \<mapsto> BreadthMarkup (toFixed 1 (to_double x)),
                  MarketBreadthTail \<mapsto> Template '' of instruments trending up''), None)
           | Inr (Some _) \<Rightarrow> (w, Some TypeError)))"

text \<open>\<open>if (volatilityValueEl && data.volatility_index !== undefined) { ... }\<close>\<close>

definition update_volatility_index :: "json \<Rightarrow> widgets \<Rightarrow> outcome" where
  "update_volatility_index data w =
     (case w VolatilityValue of
        None \<Rightarrow> (w, None)
      | Some _ \<Rightarrow>
          (case get data ''volatility_index'' of
             Inl e \<Rightarrow> (w, Some e)
           | Inr None \<Rightarrow> (w, None)
           | Inr (Some (JNum x)) \<Rightarrow> (w(VolatilityValue \<mapsto> Text (JStr (toFixed 2 (to_double x)))), None)
           | Inr (Some _) \<Rightarrow> (w, Some TypeError)))"

text \<open>\<open>if (volatilityChangeEl && data.volatility_change !== undefined) { ... }\<close>;
  \<open>>=\<close> and \<open>*\<close> convert any value to a number, so nothing throws here.\<close>

definition update_volatility_change :: "json \<Rightarrow> widgets \<Rightarrow> outcome" where
  "update_volatility_change data w =
     (case w VolatilityChange of
        None \<Rightarrow> (w, None)
      | Some _ \<Rightarrow>
          (case get data ''volatility_change'' of
             Inl e \<Rightarrow> (w, Some e)
           | Inr None \<Rightarrow> (w, None)
           | Inr (Some v) \<Rightarrow>
               (w(VolatilityChange \<mapsto> VolatilityChangeMarkup v,
                  VolatilityChangeTail \<mapsto> Template '' vs. yesterday''), None)))"

text \<open>\<open>if (alertsValueEl && alertsDetailsEl && data.technical_breadth) { ... }\<close>\<close>

definition update_signals :: "json \<Rightarrow> widgets \<Rightarrow> outcome" where
  "update_signals data w =
     (if w AlertsValue = None \<or> w AlertsDetails = None then (w, None)
      else
        (case get data ''technical_breadth'' of
           Inl e \<Rightarrow> (w, Some e)
         | Inr None \<Rightarrow> (w, None)
         | Inr (Some tb) \<Rightarrow>
             if truthy tb then
               (let macd_bull_cross = read_prop tb ''macd_bull_cross'';
                    rsi_over_70 = read_prop tb ''rsi_over_70'';
                    pairs_evaluated = read_prop tb ''pairs_evaluated''
                in (w(AlertsValue \<mapsto> TextSum macd_bull_cross rsi_over_70,
                      AlertsDetails \<mapsto> SignalsMarkup macd_bull_cross rsi_over_70 pairs_evaluated),
                    None))
             else (w, None)))"

text \<open>\<open>if (sessionValueEl && sessionDetailsEl && data.session_activity) { ... }\<close>\<close>

definition update_session :: "json \<Rightarrow> widgets \<Rightarrow> outcome" where
  "update_session data w =
     (if w SessionActivityValue = None \<or> w SessionDetails = None then (w, None)
      else
        (case get data ''session_activity'' of
           Inl e \<Rightarrow> (w, Some e)
         | Inr None \<Rightarrow> (w, None)
         | Inr (Some v) \<Rightarrow>
             if truthy v then
               (w(SessionActivityValue \<mapsto> Text v,
                  SessionDetails \<mapsto> SessionMarkup (read_prop data ''current_session'')), None)
             else (w, None)))"

definition updateDashboard :: "json \<Rightarrow> widgets \<Rightarrow> outcome" where
  "updateDashboard data w =
     andThen (andThen (andThen (andThen (andThen
       (update_market_status data w)
       (update_breadth data))
       (update_volatility_index data))
       (update_volatility_change data))
       (update_signals data))
       (update_session data)"

section \<open>The inline script of the dashboard template (part\_000, first script)\<close>

text \<open>
  The template's own \<open>dashboardSocket.onmessage\<close>.  It has no \<open>try\<close> and no guard:
  every statement looks its element up with \<open>querySelector\<close> and assigns to it, so
  the handler throws where \<open>JSON.parse\<close> does, where the frame is \<open>null\<close> and
  where the page lacks the element, and what it had written before stays written.
  The page is given by selector.
\<close>

type_synonym template_page = "string \<Rightarrow> content option"

definition assign :: "string \<Rightarrow> content \<Rightarrow> template_page \<Rightarrow> template_page \<times> error option" where
  "assign selector c page =
     (case page selector of
        None \<Rightarrow> (page, Some TypeError)
      | Some old \<Rightarrow> (page(selector \<mapsto> c), None))"

definition dashboardSocket_onmessage ::
  "(string \<Rightarrow> json option) \<Rightarrow> string \<Rightarrow> template_page \<Rightarrow> template_page \<times> error option" where
  "dashboardSocket_onmessage JSON_parse event_data page =
     (case JSON_parse event_data of
        None \<Rightarrow> (page, Some SyntaxError)
      | Some data \<Rightarrow>
          if data = JNull then (page, Some TypeError)
          else
            andThen (andThen (andThen (andThen (andThen (andThen (andThen
              (assign ''#market-status-value''
                 (InnerText (read_prop data ''market_status'')) page)
              (assign ''#trending-up-value''
                 (Interpolated [read_prop data ''trending_up''])))
              (assign ''#volatility-index-value''
                 (InnerText (read_prop data ''volatility_index''))))
              (assign ''#volatility-change-value''
                 (Interpolated [read_prop data ''volatility_change''])))
              (assign ''#active-alerts-value''
                 (InnerText (read_prop data ''active_alerts''))))
              (assign ''#alerts-change-value''
                 (Interpolated [read_prop data ''alerts_change''])))
              (assign ''#session-activity-value''
                 (InnerText (read_prop data ''session_activity''))))
              (assign ''#current-session-value''
                 (Interpolated [read_prop data ''current_session''])))"

section \<open>The dashboard connection (dash\_socket.js)\<close>

text \<open>\<open>window.location\<close>, as far as the scripts read it.\<close>

record location =
  protocol :: string
  host :: string

definition wsProtocol :: "location \<Rightarrow> string" where
  "wsProtocol loc = (if protocol loc = ''https:'' then ''wss'' else ''ws'')"

definition wsUrl :: "location \<Rightarrow> string" where
  "wsUrl loc = wsProtocol loc @ ''://'' @ host loc @ ''/ws/dashboard/''"

datatype readyState = CONNECTING | OPEN | CLOSING | CLOSED

record socket =
  url :: string
  ready :: readyState

text \<open>
  The script's variables (\<open>reconnectState.attempts\<close>, \<open>reconnectState.timeout\<close>),
  with what the browser holds for it: every WebSocket the script has constructed
  (\<open>dashSocket\<close> is the last one), the pending timers as (handle, delay), the next
  timer handle, and the page's widgets.
\<close>

record dash =
  attempts :: nat
  timeout :: "nat option"
  sockets :: "socket list"
  timers :: "(nat \<times> nat) list"
  next_timer :: nat
  widgets :: widgets

text \<open>\<open>setTimeout(connectDashSocket, delay)\<close> returns a fresh handle.\<close>

definition setTimeout :: "nat \<Rightarrow> dash \<Rightarrow> nat \<times> dash" where
  "setTimeout delay st =
     (next_timer st,
      st\<lparr>timers := timers st @ [(next_timer st, delay)], next_timer := Suc (next_timer st)\<rparr>)"

text \<open>\<open>clearTimeout(h)\<close>: a handle that is \<open>null\<close> or no longer pending is ignored.\<close>

definition clearTimeout :: "nat option \<Rightarrow> dash \<Rightarrow> dash" where
  "clearTimeout h st = st\<lparr>timers := filter (\<lambda>(h', delay). Some h' \<noteq> h) (timers st)\<rparr>"

definition connectDashSocket :: "location \<Rightarrow> dash \<Rightarrow> dash" where
  "connectDashSocket loc st =
     (let st1 = clearTimeout (timeout st) st
      in st1\<lparr>sockets := sockets st1 @ [\<lparr>url = wsUrl loc, ready = CONNECTING\<rparr>]\<rparr>)"

definition onopen :: "dash \<Rightarrow> dash" where
  "onopen st = st\<lparr>attempts := 0\<rparr>"

definition onclose :: "dash \<Rightarrow> dash" where
  "onclose st =
     (let st1 = st\<lparr>attempts := Suc (attempts st)\<rparr>;
          delay = exponentialBackoff (attempts st1);
          (h, st2) = setTimeout delay st1
      in st2\<lparr>timeout := Some h\<rparr>)"

text \<open>
  \<open>dashSocket.onmessage\<close>: the body of the \<open>try\<close> may throw (\<open>JSON.parse\<close> a
  SyntaxError, \<open>updateDashboard\<close> a TypeError); the \<open>catch\<close> logs the error, so the
  handler always returns.  \<open>JSON.parse\<close> is the browser's: a parameter, \<open>None\<close> when
  it throws.  The result is \<open>Inl\<close> for an exception that leaves the handler.
\<close>

definition onmessage :: "(string \<Rightarrow> json option) \<Rightarrow> string \<Rightarrow> dash \<Rightarrow> error + dash" where
  "onmessage JSON_parse event_data st =
     (case JSON_parse event_data of
        None \<Rightarrow> Inr st
      | Some data \<Rightarrow>
          (case updateDashboard data (widgets st) of
             (w, thrown) \<Rightarrow> Inr (st\<lparr>widgets := w\<rparr>)))"

text \<open>
  \<open>initialize\<close> connects for the first time.  (The \<open>beforeunload\<close> listener it also
  installs runs as the page goes away, and \<open>onerror\<close> only logs: neither is part of the
  model.)
\<close>

definition initialize :: "location \<Rightarrow> widgets \<Rightarrow> dash" where
  "initialize loc page =
     connectDashSocket loc
       \<lparr>attempts = 0, timeout = None, sockets = [], timers = [], next_timer = 1,
        widgets = page\<rparr>"

subsection \<open>The browser's events\<close>

text \<open>
  What the browser delivers to the script: a socket that is connecting opens; a socket
  that is not yet closed closes (a WebSocket fires \<open>close\<close> once); an open socket
  receives a frame; a pending timer fires, leaves the timer table and runs
  \<open>connectDashSocket\<close>.  \<open>deliver\<close> is \<open>None\<close> for an event the browser cannot
  deliver in that state.
\<close>

datatype event =
    SocketOpen nat
  | SocketClose nat
  | SocketMessage nat string
  | TimerFired nat

definition set_ready :: "nat \<Rightarrow> readyState \<Rightarrow> dash \<Rightarrow> dash" where
  "set_ready i r st = st\<lparr>sockets := (sockets st)[i := (sockets st ! i)\<lparr>ready := r\<rparr>]\<rparr>"

fun deliver :: "location \<Rightarrow> (string \<Rightarrow> json option) \<Rightarrow> dash \<Rightarrow> event \<Rightarrow> dash option" where
  "deliver loc JSON_parse st (SocketOpen i) =
     (if i < length (sockets st) \<and> ready (sockets st ! i) = CONNECTING
      then Some (onopen (set_ready i OPEN st)) else None)"
| "deliver loc JSON_parse st (SocketClose i) =
     (if i < length (sockets st) \<and> ready (sockets st ! i) \<noteq> CLOSED
      then Some (onclose (set_ready i CLOSED st)) else None)"
| "deliver loc JSON_parse st (SocketMessage i event_data) =
     (if i < length (sockets st) \<and> ready (sockets st ! i) = OPEN
      then (case onmessage JSON_parse event_data st of Inl e \<Rightarrow> None | Inr st' \<Rightarrow> Some st')
      else None)"
| "deliver loc JSON_parse st (TimerFired h) =
     (if h \<in> fst ` set (timers st)
      then Some (connectDashSocket loc
                   (st\<lparr>timers := filter (\<lambda>(h', delay). h' \<noteq> h) (timers st)\<rparr>))
      else None)"

fun run :: "location \<Rightarrow> (string \<Rightarrow> json option) \<Rightarrow> dash \<Rightarrow> event list \<Rightarrow> dash option" where
  "run loc JSON_parse st [] = Some st"
| "run loc JSON_parse st (e # es) =
     (case deliver loc JSON_parse st e of
        None \<Rightarrow> None
      | Some st' \<Rightarrow> run loc JSON_parse st' es)"

text \<open>The sockets that can still fire \<open>close\<close>.\<close>

definition live :: "dash \<Rightarrow> nat" where
  "live st = length (filter (\<lambda>s. ready s \<noteq> CLOSED) (sockets st))"

section \<open>The market-intelligence client (mi\_socket.js)\<close>

subsection \<open>Frames\<close>

text \<open>
  The payload at the types of the wire protocol: a Narrative (its confidence as the
  literal of the frame), the mapping from asset-class key to its Narratives (in
  \<open>Object.entries\<close> order; a sequence that is \<open>null\<close> renders as the empty one
  does), and the frame with each property present or \<open>undefined\<close>.  A parsed frame is
  \<open>null\<close> or an object; a primitive or an array has none of the four properties and
  is dispatched as the object without them is.
\<close>

record Narrative =
  symbol :: string
  priority :: string
  narrative :: string
  confidence :: rat
  timestamp :: string

record frame =
  msg_type :: "string option"
  msg_data :: "(string \<times> Narrative list) list option"
  msg_timestamp :: "string option"
  msg_message :: "string option"

datatype parsed = Null | Object frame

subsection \<open>The page and the client\<close>

text \<open>
  What \<open>innerHTML\<close> holds, fragment by fragment as the script assigned it: the page as
  served, one alert per Narrative (alert class, icon class, symbol, priority badge,
  narrative, time, confidence digits), the no-data fragment (icon, asset class), or the
  text of the last-updated element.  The texts of a Narrative are spliced in as they
  are, not escaped: which elements the browser builds from a fragment depends on them.

  A class attribute of a fragment is a CSS class, or what an inherited lookup returned:
  a built-in of \<open>Object.prototype\<close>, printed as \<open>String\<close> prints it (the source
  text of a function), or markup stored there.
\<close>

datatype css = Class string | Builtin string | Markup "block list"
  and block =
    Served string
  | Alert css css string string string string string
  | NoData css string
  | Clock string

type_synonym html = "block list"

datatype command = RequestUpdate | SetPreferences json

text \<open>
  The client: its socket's URL and ready state, the frames handed to an open socket,
  the elements of the page by id (\<open>None\<close> for an id the page does not have), the
  notifications \<open>showToast\<close> was called with (message, type), and the delays of the
  pending reconnect timers.  \<open>builtins\<close> is the \<open>innerHTML\<close> property that the script
  has stored on a built-in of \<open>Object.prototype\<close>, by the name the built-in is
  inherited under (\<open>__proto__\<close> is \<open>Object.prototype\<close> itself); \<open>None\<close> while
  nothing was stored.
\<close>

record mi =
  socket_url :: string
  socket_state :: readyState
  sent :: "command list"
  document :: "string \<Rightarrow> html option"
  toasts :: "(string option \<times> string) list"
  reconnect_timers :: "nat list"
  builtins :: "string \<Rightarrow> html option"

definition mi_url :: "location \<Rightarrow> string" where
  "mi_url loc = ''ws://'' @ host loc @ ''/ws/market-intelligence/''"

definition MultiAssetMarketIntelligence :: "location \<Rightarrow> (string \<Rightarrow> html option) \<Rightarrow> mi" where
  "MultiAssetMarketIntelligence loc page =
     \<lparr>socket_url = mi_url loc, socket_state = CONNECTING, sent = [], document = page,
      toasts = [], reconnect_timers = [], builtins = Map.empty\<rparr>"

definition showToast :: "string option \<Rightarrow> string \<Rightarrow> mi \<Rightarrow> mi" where
  "showToast message type st = st\<lparr>toasts := toasts st @ [(message, type)]\<rparr>"

subsection \<open>Property lookup on the script's tables\<close>

text \<open>
  \<open>assetContainers\<close>, \<open>assetIcons\<close> and \<open>priorityClasses\<close> are object literals, so
  \<open>table[key]\<close> finds the table's own properties and, for any other key, what
  \<open>Object.prototype\<close> has under that name: one of its built-ins (a function, or the
  prototype itself for \<open>__proto__\<close>: a truthy value in each case), or the
  \<open>innerHTML\<close> string that an earlier \<open>updateAssetDashboard\<close> stored on the
  prototype; only then is it \<open>undefined\<close>.  \<open>stored\<close> is that string, if any.
\<close>

definition Object_prototype :: "string list" where
  "Object_prototype =
     [''constructor'', ''hasOwnProperty'', ''isPrototypeOf'', ''propertyIsEnumerable'',
      ''toLocaleString'', ''toString'', ''valueOf'', ''__proto__'',
      ''__defineGetter__'', ''__defineSetter__'', ''__lookupGetter__'', ''__lookupSetter__'']"

datatype 'a member = Own 'a | Inherited string | InheritedMarkup html | Undefined

definition lookup :: "html option \<Rightarrow> (string \<times> 'a) list \<Rightarrow> string \<Rightarrow> 'a member" where
  "lookup stored table key =
     (case map_of table key of
        Some v \<Rightarrow> Own v
      | None \<Rightarrow>
          if key \<in> set Object_prototype then Inherited key
          else if key = ''innerHTML'' then
            (case stored of Some h \<Rightarrow> InheritedMarkup h | None \<Rightarrow> Undefined)
          else Undefined)"

definition Object_prototype_innerHTML :: "mi \<Rightarrow> html option" where
  "Object_prototype_innerHTML st = builtins st ''__proto__''"

text \<open>\<open>assetContainers\<close> by the id of the element each key was bound to.\<close>

definition assetContainers :: "(string \<times> string) list" where
  "assetContainers =
     [(''forex'', ''forex-intelligence-container''),
      (''crypto'', ''crypto-intelligence-container''),
      (''stocks'', ''stocks-intelligence-container'')]"

definition assetIcons :: "(string \<times> string) list" where
  "assetIcons =
     [(''forex'', ''bi-currency-exchange''),
      (''crypto'', ''bi-currency-bitcoin''),
      (''stocks'', ''bi-graph-up'')]"

definition priorityClasses :: "(string \<times> string) list" where
  "priorityClasses =
     [(''high'', ''alert-danger''),
      (''medium'', ''alert-warning''),
      (''low'', ''alert-info'')]"

subsection \<open>Rendering\<close>

text \<open>
  \<open>this.priorityClasses[narrative.priority] || 'alert-secondary'\<close> and
  \<open>this.assetIcons[assetClass] || 'bi-circle'\<close>: the default applies to a falsy
  result, that is to \<open>undefined\<close> and to the empty string.
\<close>

definition alertClass :: "html option \<Rightarrow> string \<Rightarrow> css" where
  "alertClass stored p =
     (case lookup stored priorityClasses p of
        Own c \<Rightarrow> Class c
      | Inherited name \<Rightarrow> Builtin name
      | InheritedMarkup h \<Rightarrow> if h = [] then Class ''alert-secondary'' else Markup h
      | Undefined \<Rightarrow> Class ''alert-secondary'')"

definition iconClass :: "html option \<Rightarrow> string \<Rightarrow> css" where
  "iconClass stored assetClass =
     (case lookup stored assetIcons assetClass of
        Own c \<Rightarrow> Class c
      | Inherited name \<Rightarrow> Builtin name
      | InheritedMarkup h \<Rightarrow> if h = [] then Class ''bi-circle'' else Markup h
      | Undefined \<Rightarrow> Class ''bi-circle'')"

text \<open>
  The template literal \<open>narrativeElement\<close>.  \<open>toLocaleTimeString\<close> stands for
  \<open>new Date(t).toLocaleTimeString()\<close>, which depends on the browser's locale and
  time zone: a parameter.  The confidence is multiplied by 100 as a double.
\<close>

definition narrativeElement ::
  "(string option \<Rightarrow> string) \<Rightarrow> html option \<Rightarrow> string \<Rightarrow> Narrative \<Rightarrow> block" where
  "narrativeElement toLocaleTimeString stored assetClass n =
     Alert (alertClass stored (priority n)) (iconClass stored assetClass) (symbol n)
       (priority n) (narrative n) (toLocaleTimeString (Some (timestamp n)))
       (toFixed 0 (multiply (to_double (confidence n)) (Finite 100)))"

text \<open>The no-data template prints \<open>assetIcons[assetClass]\<close> with no default.\<close>

definition noDataElement :: "html option \<Rightarrow> string \<Rightarrow> block" where
  "noDataElement stored assetClass =
     NoData (case lookup stored assetIcons assetClass of
               Own c \<Rightarrow> Class c
             | Inherited name \<Rightarrow> Builtin name
             | InheritedMarkup h \<Rightarrow> Markup h
             | Undefined \<Rightarrow> Class ''undefined'')
            assetClass"

text \<open>
  What \<open>container\<close> is once \<open>if (!container) return\<close> has let it through: an element
  of the page, or a built-in of \<open>Object.prototype\<close>.
\<close>

datatype container = Element string | BuiltinObject string

definition innerHTML :: "container \<Rightarrow> mi \<Rightarrow> html option" where
  "innerHTML c st =
     (case c of Element elem \<Rightarrow> document st elem | BuiltinObject name \<Rightarrow> builtins st name)"

definition set_innerHTML :: "container \<Rightarrow> html \<Rightarrow> mi \<Rightarrow> mi" where
  "set_innerHTML c h st =
     (case c of
        Element elem \<Rightarrow> st\<lparr>document := (document st)(elem \<mapsto> h)\<rparr>
      | BuiltinObject name \<Rightarrow> st\<lparr>builtins := (builtins st)(name \<mapsto> h)\<rparr>)"

text \<open>\<open>container.innerHTML += narrativeElement\<close> (the property is there: it was just set).\<close>

definition append_innerHTML :: "container \<Rightarrow> block \<Rightarrow> mi \<Rightarrow> mi" where
  "append_innerHTML c b st =
     (case innerHTML c st of
        None \<Rightarrow> st
      | Some h \<Rightarrow> set_innerHTML c (h @ [b]) st)"

text \<open>
  The body of \<open>updateAssetDashboard\<close> after the guard.  Each class is looked up when
  its Narrative is rendered, so with \<open>Object.prototype\<close> as the container the lookups
  see the markup stored so far.
\<close>

definition render ::
  "(string option \<Rightarrow> string) \<Rightarrow> container \<Rightarrow> string \<Rightarrow> Narrative list \<Rightarrow> mi \<Rightarrow> mi" where
  "render toLocaleTimeString c assetClass narratives st =
     (let st1 = set_innerHTML c [] st
      in if narratives \<noteq> [] then
           foldl (\<lambda>s n. append_innerHTML c
                           (narrativeElement toLocaleTimeString (Object_prototype_innerHTML s)
                              assetClass n) s)
             st1 narratives
         else set_innerHTML c [noDataElement (Object_prototype_innerHTML st1) assetClass] st1)"

text \<open>
  \<open>updateAssetDashboard\<close>.  \<open>this.assetContainers[assetClass]\<close> is an element of the
  page, or \<open>null\<close> (the page has no such id), or \<open>undefined\<close>, or inherited.  An
  inherited built-in is truthy, so the function goes on and its stores to
  \<open>innerHTML\<close> land on the built-in.  Inherited markup (the key is \<open>innerHTML\<close> and
  an earlier \<open>__proto__\<close> key has stored on the prototype) is a string: empty it is
  falsy and the function returns; otherwise \<open>container.innerHTML = ''\<close> is a store to
  a property of a primitive, which in the strict code of a class body throws a
  TypeError before anything is written.
\<close>

definition updateAssetDashboard ::
  "(string option \<Rightarrow> string) \<Rightarrow> string \<Rightarrow> Narrative list \<Rightarrow> mi \<Rightarrow> mi \<times> error option" where
  "updateAssetDashboard toLocaleTimeString assetClass narratives st =
     (case lookup (Object_prototype_innerHTML st) assetContainers assetClass of
        Undefined \<Rightarrow> (st, None)
      | InheritedMarkup h \<Rightarrow> if h = [] then (st, None) else (st, Some TypeError)
      | Inherited name \<Rightarrow>
          (render toLocaleTimeString (BuiltinObject name) assetClass narratives st, None)
      | Own elem \<Rightarrow>
          (case document st elem of
             None \<Rightarrow> (st, None)
           | Some old \<Rightarrow>
               (render toLocaleTimeString (Element elem) assetClass narratives st, None)))"

text \<open>The \<open>for ... of\<close> loop over \<open>Object.entries\<close>: an exception ends it.\<close>

fun updateAllAssetDashboards ::
  "(string option \<Rightarrow> string) \<Rightarrow> (string \<times> Narrative list) list \<Rightarrow> mi \<Rightarrow> mi \<times> error option" where
  "updateAllAssetDashboards toLocaleTimeString [] st = (st, None)"
| "updateAllAssetDashboards toLocaleTimeString ((assetClass, narratives) # rest) st =
     andThen (updateAssetDashboard toLocaleTimeString assetClass narratives st)
       (updateAllAssetDashboards toLocaleTimeString rest)"

definition updateLastUpdatedTime :: "(string option \<Rightarrow> string) \<Rightarrow> string option \<Rightarrow> mi \<Rightarrow> mi" where
  "updateLastUpdatedTime toLocaleTimeString t st =
     (case document st ''last-updated-time'' of
        None \<Rightarrow> st
      | Some old \<Rightarrow>
          set_innerHTML (Element ''last-updated-time'') [Clock (toLocaleTimeString t)] st)"

subsection \<open>Dispatch\<close>

text \<open>
  The body of the \<open>try\<close> in \<open>handleMessage\<close>, with the state it leaves and the
  exception it throws, if any: \<open>data.type\<close> on \<open>null\<close> and \<open>Object.entries\<close> of
  \<open>undefined\<close> are TypeErrors, and one thrown while rendering ends the \<open>case\<close>
  before \<open>updateLastUpdatedTime\<close>.
\<close>

definition handleMessage_try ::
  "(string \<Rightarrow> parsed option) \<Rightarrow> (string option \<Rightarrow> string) \<Rightarrow> string \<Rightarrow> mi \<Rightarrow> mi \<times> error option" where
  "handleMessage_try JSON_parse toLocaleTimeString event_data st =
     (case JSON_parse event_data of
        None \<Rightarrow> (st, Some SyntaxError)
      | Some Null \<Rightarrow> (st, Some TypeError)
      | Some (Object data) \<Rightarrow>
          if msg_type data = Some ''market_intelligence''
             \<or> msg_type data = Some ''immediate_update'' then
            (case msg_data data of
               None \<Rightarrow> (st, Some TypeError)
             | Some narrativesByAsset \<Rightarrow>
                 andThen (updateAllAssetDashboards toLocaleTimeString narrativesByAsset st)
                   (\<lambda>st'. (updateLastUpdatedTime toLocaleTimeString (msg_timestamp data) st',
                           None)))
          else if msg_type data = Some ''preferences_updated'' then
            (showToast (Some ''Preferences updated successfully'') ''success'' st, None)
          else if msg_type data = Some ''error'' then
            (showToast (msg_message data) ''danger'' st, None)
          else (st, None))"

text \<open>\<open>handleMessage\<close>: the \<open>catch\<close> logs whatever the body threw.\<close>

definition handleMessage ::
  "(string \<Rightarrow> parsed option) \<Rightarrow> (string option \<Rightarrow> string) \<Rightarrow> string \<Rightarrow> mi \<Rightarrow> error + mi" where
  "handleMessage JSON_parse toLocaleTimeString event_data st =
     (case handleMessage_try JSON_parse toLocaleTimeString event_data st of
        (st', thrown) \<Rightarrow> Inr st')"

subsection \<open>Commands and reconnection\<close>




definition handleClose :: "mi \<Rightarrow> mi" where
  "handleClose st =
     (let st1 = showToast (Some ''Connection to market intelligence service lost'')
                  ''warning'' st
      in st1\<lparr>reconnect_timers := reconnect_timers st1 @ [5000]\<rparr>)"

definition handleError :: "mi \<Rightarrow> mi" where
  "handleError st = showToast (Some ''Connection error'') ''danger'' st"

definition reconnect :: "location \<Rightarrow> mi \<Rightarrow> mi" where
  "reconnect loc st = st\<lparr>socket_url := mi_url loc, socket_state := CONNECTING\<rparr>"

subsection \<open>The browser's events for the client\<close>

text \<open>
  The client with the sockets that \<open>reconnect\<close> has replaced (their handlers still
  call the client).  Socket \<open>i\<close> is a replaced one for \<open>i\<close> below the number of
  replaced sockets, and \<open>this.socket\<close> for \<open>i\<close> equal to it.  The browser opens a
  connecting socket (the client has no \<open>onopen\<close>), closes a socket that is not yet
  closed and calls \<open>handleClose\<close>, reports an error on a socket that is not yet
  closed, hands a frame of an open socket to \<open>handleMessage\<close>, and fires a pending
  timer, which leaves the timer table and runs \<open>reconnect\<close>.
\<close>

record mi_page =
  client :: mi
  replaced :: "readyState list"

datatype mi_event =
    MiSocketOpen nat
  | MiSocketClose nat
  | MiSocketError nat
  | MiSocketMessage nat string
  | MiTimerFired nat

definition socket_ready :: "mi_page \<Rightarrow> nat \<Rightarrow> readyState option" where
  "socket_ready p i =
     (if i < length (replaced p) then Some (replaced p ! i)
      else if i = length (replaced p) then Some (socket_state (client p))
      else None)"

definition set_socket_ready :: "nat \<Rightarrow> readyState \<Rightarrow> mi_page \<Rightarrow> mi_page" where
  "set_socket_ready i r p =
     (if i < length (replaced p) then p\<lparr>replaced := (replaced p)[i := r]\<rparr>
      else p\<lparr>client := (client p)\<lparr>socket_state := r\<rparr>\<rparr>)"

fun mi_deliver ::
  "location \<Rightarrow> (string \<Rightarrow> parsed option) \<Rightarrow> (string option \<Rightarrow> string) \<Rightarrow> mi_page \<Rightarrow> mi_event
     \<Rightarrow> mi_page option" where
  "mi_deliver loc JSON_parse toLocaleTimeString p (MiSocketOpen i) =
     (if socket_ready p i = Some CONNECTING then Some (set_socket_ready i OPEN p) else None)"
| "mi_deliver loc JSON_parse toLocaleTimeString p (MiSocketClose i) =
     (if socket_ready p i \<noteq> None \<and> socket_ready p i \<noteq> Some CLOSED
      then (let p1 = set_socket_ready i CLOSED p
            in Some (p1\<lparr>client := handleClose (client p1)\<rparr>))
      else None)"
| "mi_deliver loc JSON_parse toLocaleTimeString p (MiSocketError i) =
     (if socket_ready p i \<noteq> None \<and> socket_ready p i \<noteq> Some CLOSED
      then Some (p\<lparr>client := handleError (client p)\<rparr>)
      else None)"
| "mi_deliver loc JSON_parse toLocaleTimeString p (MiSocketMessage i event_data) =
     (if socket_ready p i = Some OPEN
      then (case handleMessage JSON_parse toLocaleTimeString event_data (client p) of
              Inl e \<Rightarrow> None
            | Inr c \<Rightarrow> Some (p\<lparr>client := c\<rparr>))
      else None)"
| "mi_deliver loc JSON_parse toLocaleTimeString p (MiTimerFired k) =
     (if k < length (reconnect_timers (client p))
      then (let c = (client p)\<lparr>reconnect_timers :=
                       take k (reconnect_timers (client p))
                       @ drop (Suc k) (reconnect_timers (client p))\<rparr>
            in Some \<lparr>client = reconnect loc c, replaced = replaced p @ [socket_state c]\<rparr>)
      else None)"

fun mi_run ::
  "location \<Rightarrow> (string \<Rightarrow> parsed option) \<Rightarrow> (string option \<Rightarrow> string) \<Rightarrow> mi_page
     \<Rightarrow> mi_event list \<Rightarrow> mi_page option" where
  "mi_run loc JSON_parse toLocaleTimeString p [] = Some p"
| "mi_run loc JSON_parse toLocaleTimeString p (e # es) =
     (case mi_deliver loc JSON_parse toLocaleTimeString p e of
        None \<Rightarrow> None
      | Some p' \<Rightarrow> mi_run loc JSON_parse toLocaleTimeString p' es)"

definition mi_loaded :: "location \<Rightarrow> (string \<Rightarrow> html option) \<Rightarrow> mi_page" where
  "mi_loaded loc page = \<lparr>client = MultiAssetMarketIntelligence loc page, replaced = []\<rparr>"

section \<open>Auxiliary definitions\<close>

text \<open>
  The payload field whose presence guards the update of each element in
  \<open>updateDashboard\<close>.  (A guard is not always the field the element shows:
  \<open>SessionDetails\<close> shows \<open>current_session\<close> and the alerts elements show the
  properties of \<open>technical_breadth\<close>.)
\<close>

fun guard_of :: "element \<Rightarrow> string" where
  "guard_of MarketStatusValue = ''market_status''"
| "guard_of MarketBreadth = ''breadth_pct''"
| "guard_of MarketBreadthTail = ''breadth_pct''"
| "guard_of VolatilityValue = ''volatility_index''"
| "guard_of VolatilityChange = ''volatility_change''"
| "guard_of VolatilityChangeTail = ''volatility_change''"
| "guard_of AlertsValue = ''technical_breadth''"
| "guard_of AlertsDetails = ''technical_breadth''"
| "guard_of SessionActivityValue = ''session_activity''"
| "guard_of SessionDetails = ''session_activity''"

text \<open>
  The invariant of the dashboard connection: a pending timer or a socket that can still
  close, never both and never two; and the same for the market-intelligence client.
\<close>

definition one_pending :: "dash \<Rightarrow> bool" where
  "one_pending st \<longleftrightarrow> length (timers st) + live st = 1"

definition mi_live :: "mi_page \<Rightarrow> nat" where
  "mi_live p =
     length (filter (\<lambda>r. r \<noteq> CLOSED) (replaced p))
     + (if socket_state (client p) \<noteq> CLOSED then 1 else 0)"

definition mi_one_pending :: "mi_page \<Rightarrow> bool" where
  "mi_one_pending p \<longleftrightarrow> length (reconnect_timers (client p)) + mi_live p = 1"

text \<open>The connection state of the client: everything but the page and the notifications.\<close>

definition connection :: "mi \<Rightarrow> string \<times> readyState \<times> command list \<times> nat list" where
  "connection st = (socket_url st, socket_state st, sent st, reconnect_timers st)"

subsection \<open>An example page, example frames and example host functions\<close>

definition milkyway :: location where
  "milkyway = \<lparr>protocol = ''https:'', host = ''milkyway.space''\<rparr>"

text \<open>A dashboard page that has every element.\<close>

definition served :: widgets where
  "served el = Some (Template ''--'')"

text \<open>A page of the template script that has every element.\<close>

definition template_served :: template_page where
  "template_served selector =
     (if selector \<in> set [''#market-status-value'', ''#trending-up-value'',
                          ''#volatility-index-value'', ''#volatility-change-value'',
                          ''#active-alerts-value'', ''#alerts-change-value'',
                          ''#session-activity-value'', ''#current-session-value'']
      then Some (Template ''--'') else None)"

definition snapshot_text :: string where
  \<open>snapshot_text = ''{"volatility_index": 18.4}''\<close>

definition mismatch_text :: string where
  \<open>mismatch_text = ''{"market_status": "OPEN", "breadth_pct": "high"}''\<close>

definition heartbeat_text :: string where
  \<open>heartbeat_text = ''{"type": "heartbeat"}''\<close>

text \<open>\<open>JSON.parse\<close> on the example frames; any other text is taken as not JSON.\<close>

definition dash_parse :: "string \<Rightarrow> json option" where
  "dash_parse s =
     (if s = snapshot_text then Some (JObj [(''volatility_index'', JNum 18.4)])
      else if s = mismatch_text
      then Some (JObj [(''market_status'', JStr ''OPEN''), (''breadth_pct'', JStr ''high'')])
      else None)"

definition polluting_text :: string where
  \<open>polluting_text =
     ''{"type": "market_intelligence", "data": {"__proto__": [], "innerHTML": [], "forex": []}, "timestamp": "2024-01-01T00:00:00Z"}''\<close>

definition mi_parse :: "string \<Rightarrow> parsed option" where
  "mi_parse s =
     (if s = heartbeat_text
      then Some (Object \<lparr>msg_type = Some ''heartbeat'', msg_data = None,
                          msg_timestamp = None, msg_message = None\<rparr>)
      else if s = polluting_text
      then Some (Object \<lparr>msg_type = Some ''market_intelligence'',
                          msg_data = Some [(''__proto__'', []), (''innerHTML'', []),
                                           (''forex'', [])],
                          msg_timestamp = Some ''2024-01-01T00:00:00Z'',
                          msg_message = None\<rparr>)
      else if s = ''null'' then Some Null
      else None)"

text \<open>A snapshot that has every field.\<close>

definition full_snapshot :: json where
  "full_snapshot =
     JObj [(''market_status'', JStr ''Bullish''),
           (''breadth_pct'', JNum 62.5),
           (''volatility_index'', JNum 18.4),
           (''volatility_change'', JNum (- 0.031)),
           (''technical_breadth'',
              JObj [(''macd_bull_cross'', JNum 12), (''rsi_over_70'', JNum 5),
                    (''pairs_evaluated'', JNum 28)]),
           (''session_activity'', JStr ''High''),
           (''current_session'', JStr ''London'')]"

text \<open>A time formatter: the clock part of an ISO-8601 instant.\<close>

definition clock :: "string option \<Rightarrow> string" where
  "clock t = (case t of None \<Rightarrow> ''Invalid Date'' | Some s \<Rightarrow> take 8 (drop 11 s))"

text \<open>A market-intelligence page that has the three containers and the last-updated element.\<close>

definition served_document :: "string \<Rightarrow> html option" where
  "served_document elem =
     (if elem \<in> set (map snd assetContainers) \<or> elem = ''last-updated-time''
      then Some [Served elem] else None)"

definition eurusd :: "string \<Rightarrow> Narrative" where
  "eurusd p = \<lparr>symbol = ''EURUSD'', priority = p, narrative = ''breakout'',
               confidence = 0.82, timestamp = ''2024-01-01T00:00:00Z''\<rparr>"

section \<open>Properties\<close>

lemma exponentialBackoff_mono:
  "a \<le> b \<Longrightarrow> exponentialBackoff a \<le> exponentialBackoff b"
proof -
  assume "a \<le> b"
  then have "(2::nat) ^ a \<le> 2 ^ b"
    by (simp add: power_increasing)
  then have "RECONNECT_DELAY * 2 ^ a \<le> RECONNECT_DELAY * 2 ^ b"
    by (rule mult_le_mono2)
  then show ?thesis
    unfolding exponentialBackoff_def by (rule min.mono) simp
qed

text \<open>
  C1.  For every attempt count the delay is \<open>min (5000 * 2 ^ attempt) 60000\<close>
  milliseconds; the delay of attempt 0 is 5000; the delay never decreases when the
  attempt count grows; and it never exceeds 60000.
\<close>

theorem exponentialBackoff_spec:
  "exponentialBackoff attempt = min (5000 * 2 ^ attempt) 60000
   \<and> exponentialBackoff 0 = 5000
   \<and> (\<forall>a b. a \<le> b \<longrightarrow> exponentialBackoff a \<le> exponentialBackoff b)
   \<and> exponentialBackoff attempt \<le> 60000"
proof (intro conjI allI impI)
  show "exponentialBackoff attempt = min (5000 * 2 ^ attempt) 60000"
    by (simp add: exponentialBackoff_def RECONNECT_DELAY_def MAX_RECONNECT_DELAY_def)
  show "exponentialBackoff 0 = 5000"
    by (simp add: exponentialBackoff_def RECONNECT_DELAY_def MAX_RECONNECT_DELAY_def)
  show "exponentialBackoff attempt \<le> 60000"
    by (simp add: exponentialBackoff_def MAX_RECONNECT_DELAY_def)
  show "exponentialBackoff a \<le> exponentialBackoff b" if "a \<le> b" for a b
    using that by (rule exponentialBackoff_mono)
qed

theorem exponentialBackoff_spec_witness:
  "exponentialBackoff 2 = 20000 \<and> exponentialBackoff 0 = 5000
   \<and> exponentialBackoff 2 \<le> exponentialBackoff 7 \<and> exponentialBackoff 7 = 60000"
proof -
  have le: "(2::nat) \<le> 7" by simp
  from exponentialBackoff_spec [of 2] le
  have "exponentialBackoff 2 = min (5000 * 2 ^ 2) 60000"
    and "exponentialBackoff 0 = 5000"
    and "exponentialBackoff 2 \<le> exponentialBackoff 7"
    by blast+
  moreover from exponentialBackoff_spec [of 7]
  have "exponentialBackoff 7 = min (5000 * 2 ^ 7) 60000" by blast
  ultimately show ?thesis by simp
qed

subsection \<open>The reconnect timers\<close>

lemma length_filter_update:
  assumes "i < length xs"
  shows "length (filter P (xs[i := v])) + (if P (xs ! i) then 1 else 0)
         = length (filter P xs) + (if P v then 1 else 0)"
  using assms
proof (induction xs arbitrary: i)
  case Nil
  then show ?case by simp
next
  case (Cons x xs)
  then show ?case by (cases i) auto
qed

lemma live_set_ready_closed:
  "i < length (sockets st) \<Longrightarrow> ready (sockets st ! i) \<noteq> CLOSED
   \<Longrightarrow> Suc (live (set_ready i CLOSED st)) = live st"
  using length_filter_update
    [of i "sockets st" "\<lambda>s. ready s \<noteq> CLOSED" "(sockets st ! i)\<lparr>ready := CLOSED\<rparr>"]
  by (simp add: live_def set_ready_def)

lemma live_set_ready_open:
  "i < length (sockets st) \<Longrightarrow> ready (sockets st ! i) = CONNECTING
   \<Longrightarrow> live (set_ready i OPEN st) = live st"
  using length_filter_update
    [of i "sockets st" "\<lambda>s. ready s \<noteq> CLOSED" "(sockets st ! i)\<lparr>ready := OPEN\<rparr>"]
  by (simp add: live_def set_ready_def)

lemma timers_set_ready [simp]: "timers (set_ready i r st) = timers st"
  by (simp add: set_ready_def)

lemma live_timers_update [simp]: "live (st\<lparr>timers := ts\<rparr>) = live st"
  by (simp add: live_def)

lemma onopen_fields [simp]:
  "timers (onopen st) = timers st"
  "live (onopen st) = live st"
  "attempts (onopen st) = 0"
  by (simp_all add: onopen_def live_def)

lemma onclose_fields [simp]:
  "timers (onclose st) = timers st @ [(next_timer st, exponentialBackoff (Suc (attempts st)))]"
  "live (onclose st) = live st"
  by (simp_all add: onclose_def setTimeout_def live_def Let_def)

lemma connectDashSocket_fields [simp]:
  "timers (connectDashSocket loc st) = filter (\<lambda>(h', delay). Some h' \<noteq> timeout st) (timers st)"
  "live (connectDashSocket loc st) = Suc (live st)"
  by (simp_all add: connectDashSocket_def clearTimeout_def live_def Let_def)

lemma onmessage_fields:
  "onmessage P d st = Inr st' \<Longrightarrow> timers st' = timers st \<and> live st' = live st"
  by (auto simp: onmessage_def live_def split: option.splits prod.splits)

lemma deliver_one_pending:
  assumes "one_pending st" and "deliver loc P st e = Some st'"
  shows "one_pending st'"
proof (cases e)
  case (SocketOpen i)
  with assms show ?thesis
    by (auto simp: one_pending_def live_set_ready_open split: if_splits)
next
  case (SocketClose i)
  with assms have i: "i < length (sockets st)" "ready (sockets st ! i) \<noteq> CLOSED"
    and st': "st' = onclose (set_ready i CLOSED st)"
    by (auto split: if_splits)
  from live_set_ready_closed [OF i] assms(1)
  have "timers st = []" and "live (set_ready i CLOSED st) = 0"
    unfolding one_pending_def by (cases "timers st"; simp)+
  then show ?thesis
    unfolding st' one_pending_def by simp
next
  case (SocketMessage i d)
  with assms show ?thesis
    by (auto simp: one_pending_def split: if_splits sum.splits dest: onmessage_fields)
next
  case (TimerFired h)
  with assms have h: "h \<in> fst ` set (timers st)"
    and st': "st' = connectDashSocket loc
                      (st\<lparr>timers := filter (\<lambda>(h', delay). h' \<noteq> h) (timers st)\<rparr>)"
    by (auto split: if_splits)
  from assms(1) h have "length (timers st) = 1" "live st = 0"
    unfolding one_pending_def by (cases "timers st"; auto)+
  then obtain d where "timers st = [(h, d)]"
    using h by (cases "timers st") auto
  then show ?thesis
    unfolding st' one_pending_def using \<open>live st = 0\<close> by simp
qed

lemma run_one_pending:
  "one_pending st \<Longrightarrow> run loc P st es = Some st' \<Longrightarrow> one_pending st'"
proof (induction es arbitrary: st)
  case Nil
  then show ?case by simp
next
  case (Cons e es)
  then show ?case
    by (auto split: option.splits dest: deliver_one_pending)
qed

lemma initialize_one_pending: "one_pending (initialize loc page)"
proof -
  have "live \<lparr>attempts = 0, timeout = None, sockets = [], timers = [], next_timer = 1,
          widgets = page\<rparr> = 0"
    by (simp add: live_def)
  then show ?thesis
    unfolding one_pending_def initialize_def by simp
qed

text \<open>
  The market-intelligence client keeps no timer handle and cancels nothing: there a
  timer is only set by the close of a socket, and a socket is only built by a timer.
\<close>

lemma connection_set_innerHTML [simp]:
  "connection (set_innerHTML c h st) = connection st"
  "toasts (set_innerHTML c h st) = toasts st"
  by (simp_all add: set_innerHTML_def connection_def split: container.splits)

lemma connection_append_innerHTML [simp]:
  "connection (append_innerHTML c b st) = connection st"
  "toasts (append_innerHTML c b st) = toasts st"
  by (simp_all add: append_innerHTML_def split: option.splits)

lemma connection_foldl_append:
  "connection (foldl (\<lambda>s n. append_innerHTML c (g s n) s) st ns) = connection st
   \<and> toasts (foldl (\<lambda>s n. append_innerHTML c (g s n) s) st ns) = toasts st"
  by (induction ns arbitrary: st) simp_all

lemma connection_render [simp]:
  "connection (render fmt c k ns st) = connection st"
  "toasts (render fmt c k ns st) = toasts st"
  by (simp_all add: render_def Let_def connection_foldl_append)

lemma connection_updateAssetDashboard [simp]:
  "connection (fst (updateAssetDashboard fmt k ns st)) = connection st"
  "toasts (fst (updateAssetDashboard fmt k ns st)) = toasts st"
  by (simp_all add: updateAssetDashboard_def split: member.splits option.splits)

lemma connection_updateAllAssetDashboards:
  "connection (fst (updateAllAssetDashboards fmt payload st)) = connection st
   \<and> toasts (fst (updateAllAssetDashboards fmt payload st)) = toasts st"
proof (induction payload arbitrary: st)
  case Nil
  then show ?case by simp
next
  case (Cons p payload)
  obtain k ns where p: "p = (k, ns)" by (cases p)
  obtain st' thrown where u: "updateAssetDashboard fmt k ns st = (st', thrown)"
    by (cases "updateAssetDashboard fmt k ns st")
  have "connection st' = connection st" and "toasts st' = toasts st"
    using connection_updateAssetDashboard [of fmt k ns st] u by simp_all
  with Cons.IH [of st'] p u show ?case
    by (cases thrown) (simp_all add: andThen_def)
qed

lemma connection_updateLastUpdatedTime [simp]:
  "connection (updateLastUpdatedTime fmt t st) = connection st"
  "toasts (updateLastUpdatedTime fmt t st) = toasts st"
  by (simp_all add: updateLastUpdatedTime_def split: option.splits)

lemma connection_showToast [simp]: "connection (showToast message type st) = connection st"
  by (simp add: showToast_def connection_def)

lemma connection_handleMessage_try:
  "connection (fst (handleMessage_try Q fmt event_data st)) = connection st"
proof -
  have "connection (fst (andThen (updateAllAssetDashboards fmt payload st)
          (\<lambda>st'. (updateLastUpdatedTime fmt t st', None)))) = connection st" for payload t
    using connection_updateAllAssetDashboards [of fmt payload st]
    by (cases "updateAllAssetDashboards fmt payload st")
       (auto simp: andThen_def split: option.splits)
  then show ?thesis
    by (auto simp: handleMessage_try_def split: option.splits parsed.splits)
qed

lemma connection_handleMessage:
  "handleMessage Q fmt event_data st = Inr st' \<Longrightarrow> connection st' = connection st"
  using connection_handleMessage_try [of Q fmt event_data st]
  by (auto simp: handleMessage_def split: prod.splits)

lemma mi_live_set_closed:
  assumes "socket_ready p i \<noteq> None" and "socket_ready p i \<noteq> Some CLOSED"
  shows "Suc (mi_live (set_socket_ready i CLOSED p)) = mi_live p"
proof (cases "i < length (replaced p)")
  case True
  with assms have "replaced p ! i \<noteq> CLOSED"
    by (simp add: socket_ready_def)
  with True length_filter_update [of i "replaced p" "\<lambda>r. r \<noteq> CLOSED" CLOSED]
  show ?thesis
    by (simp add: mi_live_def set_socket_ready_def)
next
  case False
  with assms show ?thesis
    by (auto simp: mi_live_def set_socket_ready_def socket_ready_def split: if_splits)
qed

lemma mi_live_set_open:
  assumes "socket_ready p i = Some CONNECTING"
  shows "mi_live (set_socket_ready i OPEN p) = mi_live p"
proof (cases "i < length (replaced p)")
  case True
  with assms have "replaced p ! i = CONNECTING"
    by (simp add: socket_ready_def)
  with True length_filter_update [of i "replaced p" "\<lambda>r. r \<noteq> CLOSED" OPEN]
  show ?thesis
    by (simp add: mi_live_def set_socket_ready_def)
next
  case False
  with assms show ?thesis
    by (auto simp: mi_live_def set_socket_ready_def socket_ready_def split: if_splits)
qed

lemma reconnect_timers_set_socket_ready [simp]:
  "reconnect_timers (client (set_socket_ready i r p)) = reconnect_timers (client p)"
  by (simp add: set_socket_ready_def)

lemma mi_deliver_one_pending:
  assumes "mi_one_pending p" and "mi_deliver loc Q fmt p e = Some p'"
  shows "mi_one_pending p'"
proof (cases e)
  case (MiSocketOpen i)
  with assms show ?thesis
    by (auto simp: mi_one_pending_def mi_live_set_open split: if_splits)
next
  case (MiSocketClose i)
  with assms have i: "socket_ready p i \<noteq> None" "socket_ready p i \<noteq> Some CLOSED"
    and p': "p' = (set_socket_ready i CLOSED p)
                    \<lparr>client := handleClose (client (set_socket_ready i CLOSED p))\<rparr>"
    by (auto simp: Let_def split: if_splits)
  from mi_live_set_closed [OF i] assms(1)
  have "reconnect_timers (client p) = []" and "mi_live (set_socket_ready i CLOSED p) = 0"
    unfolding mi_one_pending_def by (cases "reconnect_timers (client p)"; simp)+
  then show ?thesis
    unfolding p' mi_one_pending_def
    by (simp add: handleClose_def showToast_def Let_def mi_live_def)
next
  case (MiSocketError i)
  with assms show ?thesis
    by (auto simp: mi_one_pending_def mi_live_def handleError_def showToast_def
        split: if_splits)
next
  case (MiSocketMessage i d)
  with assms obtain c where c: "handleMessage Q fmt d (client p) = Inr c"
    and p': "p' = p\<lparr>client := c\<rparr>"
    by (auto split: if_splits sum.splits)
  from connection_handleMessage [OF c]
  have "socket_state c = socket_state (client p)"
    and "reconnect_timers c = reconnect_timers (client p)"
    by (simp_all add: connection_def)
  with assms(1) show ?thesis
    unfolding p' mi_one_pending_def mi_live_def by simp
next
  case (MiTimerFired k)
  with assms have k: "k < length (reconnect_timers (client p))"
    and p': "p' = \<lparr>client = reconnect loc ((client p)\<lparr>reconnect_timers :=
                       take k (reconnect_timers (client p))
                       @ drop (Suc k) (reconnect_timers (client p))\<rparr>),
                   replaced = replaced p @ [socket_state (client p)]\<rparr>"
    by (auto simp: Let_def split: if_splits)
  from assms(1) k have one: "length (reconnect_timers (client p)) = 1" and "mi_live p = 0"
    unfolding mi_one_pending_def by simp_all
  from \<open>mi_live p = 0\<close> have closed: "socket_state (client p) = CLOSED"
    and none: "filter (\<lambda>r. r \<noteq> CLOSED) (replaced p) = []"
    by (simp_all add: mi_live_def split: if_splits)
  from one k have "k = 0" by simp
  with one have "take k (reconnect_timers (client p))
                 @ drop (Suc k) (reconnect_timers (client p)) = []"
    by simp
  with p' have "p' = \<lparr>client = reconnect loc ((client p)\<lparr>reconnect_timers := []\<rparr>),
                        replaced = replaced p @ [socket_state (client p)]\<rparr>"
    by simp
  then show ?thesis
    unfolding mi_one_pending_def mi_live_def
    using closed none by (simp add: reconnect_def)
qed

lemma mi_run_one_pending:
  "mi_one_pending p \<Longrightarrow> mi_run loc Q fmt p es = Some p' \<Longrightarrow> mi_one_pending p'"
proof (induction es arbitrary: p)
  case Nil
  then show ?case by simp
next
  case (Cons e es)
  then show ?case
    by (auto split: option.splits dest: mi_deliver_one_pending)
qed

lemma mi_timers_at_most_one:
  "mi_run loc Q fmt (mi_loaded loc page) events = Some p
   \<Longrightarrow> length (reconnect_timers (client p)) \<le> 1"
proof -
  have "mi_one_pending (mi_loaded loc page)"
    by (simp add: mi_one_pending_def mi_live_def mi_loaded_def MultiAssetMarketIntelligence_def)
  moreover assume "mi_run loc Q fmt (mi_loaded loc page) events = Some p"
  ultimately have "mi_one_pending p"
    by (rule mi_run_one_pending)
  then show ?thesis
    by (simp add: mi_one_pending_def)
qed

text \<open>
  C2.  From page load on, whatever the browser delivers (opens, frames, errors, closes,
  each socket closing once, and timer firings), at most one reconnect timer is pending
  at any time, for the dashboard socket and for the market-intelligence client alike.
  In particular N closes in a row with no successful open between them, each on the
  socket the previous timer built, never stack timers.  \<open>connectDashSocket\<close>, which
  the dashboard's timer runs, begins by cancelling the timer that
  \<open>reconnectState.timeout\<close> names and leaves no other timer changed.
\<close>

theorem at_most_one_pending_timer:
  "(run loc JSON_parse (initialize loc page) events = Some st \<longrightarrow> length (timers st) \<le> 1)
   \<and> (mi_run loc Q toLocaleTimeString (mi_loaded loc doc) mi_events = Some p
        \<longrightarrow> length (reconnect_timers (client p)) \<le> 1)
   \<and> timers (connectDashSocket loc st0)
       = filter (\<lambda>(h, delay). Some h \<noteq> timeout st0) (timers st0)"
proof (intro conjI impI)
  assume "run loc JSON_parse (initialize loc page) events = Some st"
  with initialize_one_pending have "one_pending st"
    by (rule run_one_pending)
  then show "length (timers st) \<le> 1"
    by (simp add: one_pending_def)
next
  assume "mi_run loc Q toLocaleTimeString (mi_loaded loc doc) mi_events = Some p"
  then show "length (reconnect_timers (client p)) \<le> 1"
    by (rule mi_timers_at_most_one)
next
  show "timers (connectDashSocket loc st0)
          = filter (\<lambda>(h, delay). Some h \<noteq> timeout st0) (timers st0)"
    by simp
qed

text \<open>Three closes in a row on either connection, each timer firing before the next close.\<close>

theorem at_most_one_pending_timer_witness:
  "\<exists>st p. run milkyway dash_parse (initialize milkyway served)
             [SocketClose 0, TimerFired 1, SocketClose 1, TimerFired 2, SocketClose 2] = Some st
          \<and> length (timers st) \<le> 1
          \<and> mi_run milkyway mi_parse clock (mi_loaded milkyway served_document)
               [MiSocketClose 0, MiTimerFired 0, MiSocketClose 1, MiTimerFired 0,
                MiSocketClose 2] = Some p
          \<and> length (reconnect_timers (client p)) \<le> 1"
proof -
  have "\<exists>st. run milkyway dash_parse (initialize milkyway served)
       [SocketClose 0, TimerFired 1, SocketClose 1, TimerFired 2, SocketClose 2] = Some st"
    by (simp add: initialize_def connectDashSocket_def clearTimeout_def onclose_def
        setTimeout_def set_ready_def Let_def)
  then obtain st where st: "run milkyway dash_parse (initialize milkyway served)
       [SocketClose 0, TimerFired 1, SocketClose 1, TimerFired 2, SocketClose 2] = Some st" ..
  have "\<exists>p. mi_run milkyway mi_parse clock (mi_loaded milkyway served_document)
       [MiSocketClose 0, MiTimerFired 0, MiSocketClose 1, MiTimerFired 0, MiSocketClose 2]
       = Some p"
    by (simp add: mi_loaded_def MultiAssetMarketIntelligence_def socket_ready_def
        set_socket_ready_def handleClose_def showToast_def reconnect_def Let_def)
  then obtain p where p: "mi_run milkyway mi_parse clock (mi_loaded milkyway served_document)
       [MiSocketClose 0, MiTimerFired 0, MiSocketClose 1, MiTimerFired 0, MiSocketClose 2]
       = Some p" ..
  from at_most_one_pending_timer
         [of milkyway dash_parse served
             "[SocketClose 0, TimerFired 1, SocketClose 1, TimerFired 2, SocketClose 2]" st
             mi_parse clock served_document
             "[MiSocketClose 0, MiTimerFired 0, MiSocketClose 1, MiTimerFired 0,
               MiSocketClose 2]" p]
       st p
  show ?thesis by blast
qed

text \<open>
  C3.  A successful open resets the attempt count to 0; the close that follows
  increments the count before it computes the delay, so the reconnect is scheduled
  after \<open>exponentialBackoff 1 = 10000\<close> milliseconds, not after the
  \<open>exponentialBackoff 0 = 5000\<close> the claim states.
\<close>

theorem first_close_after_open_waits_10000:
  "attempts (onopen st) = 0
   \<and> timers (onclose (onopen st)) = timers st @ [(next_timer st, 10000)]
   \<and> exponentialBackoff 0 = 5000"
  by (simp add: onopen_def exponentialBackoff_def RECONNECT_DELAY_def MAX_RECONNECT_DELAY_def)

subsection \<open>The URLs\<close>

lemma wsUrl_scheme:
  "wsUrl loc = (if protocol loc = ''https:'' then ''wss'' else ''ws'')
                 @ ''://'' @ host loc @ ''/ws/dashboard/''"
  by (simp add: wsUrl_def wsProtocol_def)

lemma dashSocket_url:
  "url (last (sockets (connectDashSocket loc st))) = wsUrl loc"
  by (simp add: connectDashSocket_def clearTimeout_def Let_def)

text \<open>
  C4.  The dashboard socket takes its scheme from the page (\<open>wsUrl_scheme\<close>), but the
  market-intelligence socket is built with the plain scheme whatever the page: on a
  page served over https its URL still starts with \<open>ws://\<close>.
\<close>

theorem mi_socket_url_is_plain_on_secure_page:
  "protocol milkyway = ''https:''
   \<and> socket_url (MultiAssetMarketIntelligence milkyway page)
       = ''ws://milkyway.space/ws/market-intelligence/''
   \<and> socket_url (reconnect milkyway st) = ''ws://milkyway.space/ws/market-intelligence/''
   \<and> wsUrl milkyway = ''wss://milkyway.space/ws/dashboard/''"
  by (simp add: MultiAssetMarketIntelligence_def reconnect_def mi_url_def milkyway_def
      wsUrl_def wsProtocol_def)

subsection \<open>Commands\<close>




subsection \<open>Dashboard snapshots\<close>

lemma andThen_None [simp]: "andThen (w, None) f = f w"
  by (simp add: andThen_def)

lemma andThen_Some [simp]: "andThen (w, Some e) f = (w, Some e)"
  by (simp add: andThen_def)

lemma get_JObj [simp]: "get (JObj ps) name = Inr (map_of ps name)"
  by (simp add: get_def read_prop_def)

lemma andThen_keeps:
  assumes "\<And>w. fst (f w) el = w el"
  shows "fst (andThen r f) el = fst r el"
  using assms by (cases r) (auto simp: andThen_def split: option.splits)

lemma update_market_status_keeps:
  "read_prop data (guard_of el) = None \<Longrightarrow> fst (update_market_status data w) el = w el"
  by (cases el) (auto simp: update_market_status_def get_def split: option.splits)

lemma update_breadth_keeps:
  "read_prop data (guard_of el) = None \<Longrightarrow> fst (update_breadth data w) el = w el"
  by (cases el) (auto simp: update_breadth_def get_def split: option.splits json.splits)

lemma update_volatility_index_keeps:
  "read_prop data (guard_of el) = None \<Longrightarrow> fst (update_volatility_index data w) el = w el"
  by (cases el) (auto simp: update_volatility_index_def get_def split: option.splits json.splits)

lemma update_volatility_change_keeps:
  "read_prop data (guard_of el) = None \<Longrightarrow> fst (update_volatility_change data w) el = w el"
  by (cases el) (auto simp: update_volatility_change_def get_def split: option.splits)

lemma update_signals_keeps:
  "read_prop data (guard_of el) = None \<Longrightarrow> fst (update_signals data w) el = w el"
  by (cases el) (auto simp: update_signals_def get_def Let_def split: option.splits)

lemma update_session_keeps:
  "read_prop data (guard_of el) = None \<Longrightarrow> fst (update_session data w) el = w el"
  by (cases el) (auto simp: update_session_def get_def split: option.splits)

text \<open>
  Whatever the frame, an element whose guard the payload does not have keeps its
  content, also when a later field makes \<open>updateDashboard\<close> throw.
\<close>

lemma updateDashboard_guard_absent_keeps:
  assumes "read_prop data (guard_of el) = None"
  shows "fst (updateDashboard data w) el = w el"
  unfolding updateDashboard_def
  by (simp add: andThen_keeps update_market_status_keeps update_breadth_keeps
      update_volatility_index_keeps update_volatility_change_keeps update_signals_keeps
      update_session_keeps assms)

text \<open>A statement whose guard the payload object does not have does nothing.\<close>

lemma steps_absent:
  "map_of ps ''market_status'' = None \<Longrightarrow> update_market_status (JObj ps) w = (w, None)"
  "map_of ps ''breadth_pct'' = None \<Longrightarrow> update_breadth (JObj ps) w = (w, None)"
  "map_of ps ''volatility_index'' = None \<Longrightarrow> update_volatility_index (JObj ps) w = (w, None)"
  "map_of ps ''volatility_change'' = None \<Longrightarrow> update_volatility_change (JObj ps) w = (w, None)"
  "map_of ps ''technical_breadth'' = None \<Longrightarrow> update_signals (JObj ps) w = (w, None)"
  "map_of ps ''session_activity'' = None \<Longrightarrow> update_session (JObj ps) w = (w, None)"
  by (simp_all add: update_market_status_def update_breadth_def update_volatility_index_def
      update_volatility_change_def update_signals_def update_session_def split: option.splits)

text \<open>
  A frame that holds only \<open>volatility_index\<close> writes the index with two decimals
  into the volatility element, changes nothing else and does not throw.
\<close>

lemma updateDashboard_volatility_only:
  "updateDashboard (JObj [(''volatility_index'', JNum v)]) w =
     (if w VolatilityValue = None then w
      else w(VolatilityValue \<mapsto> Text (JStr (toFixed 2 (to_double v)))), None)"
proof -
  have "update_volatility_index (JObj [(''volatility_index'', JNum v)]) w =
     (if w VolatilityValue = None then w
      else w(VolatilityValue \<mapsto> Text (JStr (toFixed 2 (to_double v)))), None)"
    by (simp add: update_volatility_index_def split: option.splits)
  then show ?thesis
    unfolding updateDashboard_def by (simp add: steps_absent)
qed

lemma toFixed_examples:
  "toFixed 2 (to_double 18.4) = ''18.40''"
  "toFixed 1 (to_double 62.5) = ''62.5''"
  by code_simp+

lemma toFixed_examples_normal:
  "toFixed 2 (to_double (92 / 5)) = ''18.40''"
  "toFixed (Suc 0) (to_double (125 / 2)) = ''62.5''"
  using toFixed_examples by simp_all

lemma snapshot_18_4:
  "updateDashboard (JObj [(''volatility_index'', JNum 18.4)]) served
     = (served(VolatilityValue \<mapsto> Text (JStr ''18.40'')), None)"
  unfolding updateDashboard_volatility_only toFixed_examples
  by (simp add: served_def)

text \<open>Every guarded statement does write when its field is there.\<close>

lemma full_snapshot_updates_every_widget:
  "updateDashboard full_snapshot served =
     (served
        (MarketStatusValue \<mapsto> Text (JStr ''Bullish''),
         MarketBreadth \<mapsto> BreadthMarkup ''62.5'',
         MarketBreadthTail \<mapsto> Template '' of instruments trending up'',
         VolatilityValue \<mapsto> Text (JStr ''18.40''),
         VolatilityChange \<mapsto> VolatilityChangeMarkup (JNum (- 0.031)),
         VolatilityChangeTail \<mapsto> Template '' vs. yesterday'',
         AlertsValue \<mapsto> TextSum (Some (JNum 12)) (Some (JNum 5)),
         AlertsDetails \<mapsto> SignalsMarkup (Some (JNum 12)) (Some (JNum 5)) (Some (JNum 28)),
         SessionActivityValue \<mapsto> Text (JStr ''High''),
         SessionDetails \<mapsto> SessionMarkup (Some (JStr ''London''))),
      None)"
proof -
  have a: "update_market_status full_snapshot served
             = (served(MarketStatusValue \<mapsto> Text (JStr ''Bullish'')), None)"
    by (simp add: update_market_status_def full_snapshot_def served_def)
  have b: "update_breadth full_snapshot w
             = (w(MarketBreadth \<mapsto> BreadthMarkup (toFixed 1 (to_double 62.5)),
                  MarketBreadthTail \<mapsto> Template '' of instruments trending up''), None)"
    if "w MarketBreadth \<noteq> None" for w
    using that by (auto simp: update_breadth_def full_snapshot_def)
  have c: "update_volatility_index full_snapshot w
             = (w(VolatilityValue \<mapsto> Text (JStr (toFixed 2 (to_double 18.4)))), None)"
    if "w VolatilityValue \<noteq> None" for w
    using that by (auto simp: update_volatility_index_def full_snapshot_def)
  have d: "update_volatility_change full_snapshot w
             = (w(VolatilityChange \<mapsto> VolatilityChangeMarkup (JNum (- 0.031)),
                  VolatilityChangeTail \<mapsto> Template '' vs. yesterday''), None)"
    if "w VolatilityChange \<noteq> None" for w
    using that by (auto simp: update_volatility_change_def full_snapshot_def)
  have e: "update_signals full_snapshot w
             = (w(AlertsValue \<mapsto> TextSum (Some (JNum 12)) (Some (JNum 5)),
                  AlertsDetails \<mapsto>
                    SignalsMarkup (Some (JNum 12)) (Some (JNum 5)) (Some (JNum 28))), None)"
    if "w AlertsValue \<noteq> None" "w AlertsDetails \<noteq> None" for w
    using that by (auto simp: update_signals_def full_snapshot_def read_prop_def Let_def)
  have f: "update_session full_snapshot w
             = (w(SessionActivityValue \<mapsto> Text (JStr ''High''),
                  SessionDetails \<mapsto> SessionMarkup (Some (JStr ''London''))), None)"
    if "w SessionActivityValue \<noteq> None" "w SessionDetails \<noteq> None" for w
    using that by (auto simp: update_session_def full_snapshot_def read_prop_def)
  show ?thesis
    unfolding updateDashboard_def
    by (simp add: a b c d e f served_def toFixed_examples_normal)
qed

text \<open>
  C6.  Two handlers receive the snapshots, and both overwrite widgets whose field the
  frame does not have.  \<open>updateDashboard\<close> guards the two session elements by
  \<open>session_activity\<close> alone: a partial snapshot that has \<open>session_activity\<close> but
  no \<open>current_session\<close> overwrites the session details with the text of
  \<open>undefined\<close>.  The inline script of the template has no guard at all: the snapshot
  that holds only \<open>volatility_index\<close> makes it overwrite every widget, the seven
  others with what \<open>undefined\<close> prints as.  (In \<open>updateDashboard\<close> an element whose
  guard is absent is kept, \<open>updateDashboard_guard_absent_keeps\<close>; the snapshot that
  holds only \<open>volatility_index\<close> touches only the volatility value, \<open>snapshot_18_4\<close>;
  and every guarded statement writes when its field is there,
  \<open>full_snapshot_updates_every_widget\<close>.)
\<close>

theorem partial_snapshot_overwrites_absent_fields:
  "read_prop (JObj [(''session_activity'', JStr ''High'')]) ''current_session'' = None
   \<and> updateDashboard (JObj [(''session_activity'', JStr ''High'')]) served
       = (served(SessionActivityValue \<mapsto> Text (JStr ''High''),
                 SessionDetails \<mapsto> SessionMarkup None), None)
   \<and> served SessionDetails = Some (Template ''--'')
   \<and> dash_parse snapshot_text = Some (JObj [(''volatility_index'', JNum 18.4)])
   \<and> dashboardSocket_onmessage dash_parse snapshot_text template_served =
       (template_served
          (''#market-status-value'' \<mapsto> InnerText None,
           ''#trending-up-value'' \<mapsto> Interpolated [None],
           ''#volatility-index-value'' \<mapsto> InnerText (Some (JNum 18.4)),
           ''#volatility-change-value'' \<mapsto> Interpolated [None],
           ''#active-alerts-value'' \<mapsto> InnerText None,
           ''#alerts-change-value'' \<mapsto> Interpolated [None],
           ''#session-activity-value'' \<mapsto> InnerText None,
           ''#current-session-value'' \<mapsto> Interpolated [None]),
        None)
   \<and> template_served ''#market-status-value'' = Some (Template ''--'')"
proof -
  have "update_session (JObj [(''session_activity'', JStr ''High'')]) served
          = (served(SessionActivityValue \<mapsto> Text (JStr ''High''),
                    SessionDetails \<mapsto> SessionMarkup None), None)"
    by (simp add: update_session_def read_prop_def served_def)
  then have "updateDashboard (JObj [(''session_activity'', JStr ''High'')]) served
       = (served(SessionActivityValue \<mapsto> Text (JStr ''High''),
                 SessionDetails \<mapsto> SessionMarkup None), None)"
    unfolding updateDashboard_def by (simp add: steps_absent)
  moreover have "dashboardSocket_onmessage dash_parse snapshot_text template_served =
       (template_served
          (''#market-status-value'' \<mapsto> InnerText None,
           ''#trending-up-value'' \<mapsto> Interpolated [None],
           ''#volatility-index-value'' \<mapsto> InnerText (Some (JNum 18.4)),
           ''#volatility-change-value'' \<mapsto> Interpolated [None],
           ''#active-alerts-value'' \<mapsto> InnerText None,
           ''#alerts-change-value'' \<mapsto> Interpolated [None],
           ''#session-activity-value'' \<mapsto> InnerText None,
           ''#current-session-value'' \<mapsto> Interpolated [None]),
        None)"
    by (simp add: dashboardSocket_onmessage_def dash_parse_def assign_def template_served_def
        read_prop_def)
  ultimately show ?thesis
    by (simp add: read_prop_def served_def dash_parse_def template_served_def)
qed

subsection \<open>Dispatch\<close>





text \<open>
  C9.  A frame whose \<open>type\<close> is none of \<open>market_intelligence\<close>,
  \<open>immediate_update\<close>, \<open>preferences_updated\<close> and \<open>error\<close> (or is missing) is
  ignored by \<open>handleMessage\<close>: nothing is thrown, not even inside the \<open>try\<close>, and
  the client (page, notifications, socket, timers) is exactly as before.
\<close>

theorem unknown_type_ignored:
  assumes "JSON_parse event_data = Some (Object data)"
    and "msg_type data \<notin> {Some ''market_intelligence'', Some ''immediate_update'',
                          Some ''preferences_updated'', Some ''error''}"
  shows "handleMessage_try JSON_parse toLocaleTimeString event_data st = (st, None)
         \<and> handleMessage JSON_parse toLocaleTimeString event_data st = Inr st"
  using assms by (simp add: handleMessage_def handleMessage_try_def)

theorem unknown_type_ignored_witness:
  "handleMessage_try mi_parse clock heartbeat_text
       (MultiAssetMarketIntelligence milkyway served_document)
     = (MultiAssetMarketIntelligence milkyway served_document, None)
   \<and> handleMessage mi_parse clock heartbeat_text
       (MultiAssetMarketIntelligence milkyway served_document)
     = Inr (MultiAssetMarketIntelligence milkyway served_document)"
proof -
  let ?data = "\<lparr>msg_type = Some ''heartbeat'', msg_data = None,
                 msg_timestamp = None, msg_message = None\<rparr>"
  have p: "mi_parse heartbeat_text = Some (Object ?data)"
    by (simp add: mi_parse_def)
  have t: "msg_type ?data \<notin> {Some ''market_intelligence'', Some ''immediate_update'',
                              Some ''preferences_updated'', Some ''error''}"
    by simp
  from unknown_type_ignored [of mi_parse heartbeat_text ?data clock
      "MultiAssetMarketIntelligence milkyway served_document", OF p t]
  show ?thesis .
qed

subsection \<open>Rendering the asset regions\<close>

lemma document_set_innerHTML:
  "document (set_innerHTML c h st) =
     (case c of Element e \<Rightarrow> (document st)(e \<mapsto> h) | BuiltinObject name \<Rightarrow> document st)"
  "builtins (set_innerHTML c h st) =
     (case c of Element e \<Rightarrow> builtins st | BuiltinObject name \<Rightarrow> (builtins st)(name \<mapsto> h))"
  by (simp_all add: set_innerHTML_def split: container.splits)

lemma set_innerHTML_Element:
  "set_innerHTML (Element e) h st = st\<lparr>document := (document st)(e \<mapsto> h)\<rparr>"
  by (simp add: set_innerHTML_def)

lemma foldl_append_element:
  assumes "document st e = Some h"
  shows "foldl (\<lambda>s n. append_innerHTML (Element e)
                          (narrativeElement fmt (Object_prototype_innerHTML s) k n) s) st ns
         = st\<lparr>document := (document st)
                (e \<mapsto> h @ map (narrativeElement fmt (Object_prototype_innerHTML st) k) ns)\<rparr>"
  using assms
proof (induction ns arbitrary: st h)
  case Nil
  then show ?case by (simp add: fun_upd_idem)
next
  case (Cons n ns)
  let ?b = "narrativeElement fmt (Object_prototype_innerHTML st) k n"
  let ?st = "st\<lparr>document := (document st)(e \<mapsto> h @ [?b])\<rparr>"
  have step: "append_innerHTML (Element e) ?b st = ?st"
    using Cons.prems by (simp add: append_innerHTML_def innerHTML_def set_innerHTML_def)
  have opi: "Object_prototype_innerHTML ?st = Object_prototype_innerHTML st"
    by (simp add: Object_prototype_innerHTML_def)
  have upd: "?st\<lparr>document := (document ?st)(e \<mapsto> x)\<rparr>
               = st\<lparr>document := (document st)(e \<mapsto> x)\<rparr>" for x
    by simp
  have "document ?st e = Some (h @ [?b])" by simp
  from Cons.IH [OF this]
  have "foldl (\<lambda>s n. append_innerHTML (Element e)
                          (narrativeElement fmt (Object_prototype_innerHTML s) k n) s) ?st ns
        = st\<lparr>document := (document st)
               (e \<mapsto> (h @ [?b]) @ map (narrativeElement fmt (Object_prototype_innerHTML st) k) ns)\<rparr>"
    unfolding opi upd .
  with step show ?case by (simp add: fun_upd_def)
qed

text \<open>
  What \<open>updateAssetDashboard\<close> does for a key that has a container on the page: the
  region is replaced, whatever it held, by the no-data fragment for an empty sequence
  and by one alert fragment per Narrative, in the sequence's order, otherwise; nothing
  else changes and nothing is thrown.
\<close>

lemma updateAssetDashboard_renders:
  assumes "map_of assetContainers k = Some e" and "document st e \<noteq> None"
  shows "updateAssetDashboard fmt k ns st =
           (st\<lparr>document := (document st)
                 (e \<mapsto> (if ns = [] then [noDataElement (Object_prototype_innerHTML st) k]
                        else map (narrativeElement fmt (Object_prototype_innerHTML st) k) ns))\<rparr>,
            None)"
proof -
  from assms(1) have l: "lookup (Object_prototype_innerHTML st) assetContainers k = Own e"
    by (simp add: lookup_def)
  have "render fmt (Element e) k ns st =
          st\<lparr>document := (document st)
                 (e \<mapsto> (if ns = [] then [noDataElement (Object_prototype_innerHTML st) k]
                        else map (narrativeElement fmt (Object_prototype_innerHTML st) k) ns))\<rparr>"
  proof (cases "ns = []")
    case True
    then show ?thesis
      by (simp add: render_def set_innerHTML_Element Object_prototype_innerHTML_def)
  next
    case False
    let ?st1 = "set_innerHTML (Element e) [] st"
    have "document ?st1 e = Some []"
      by (simp add: set_innerHTML_Element)
    from foldl_append_element [OF this, of fmt k ns] False show ?thesis
      by (simp add: render_def set_innerHTML_Element Object_prototype_innerHTML_def)
  qed
  with l assms(2) show ?thesis
    by (auto simp: updateAssetDashboard_def)
qed

lemma alertClass_cases:
  "alertClass stored ''high'' = Class ''alert-danger''"
  "alertClass stored ''medium'' = Class ''alert-warning''"
  "alertClass stored ''low'' = Class ''alert-info''"
  "p \<notin> {''high'', ''medium'', ''low''} \<Longrightarrow> p \<notin> set Object_prototype \<Longrightarrow> p \<noteq> ''innerHTML''
     \<Longrightarrow> alertClass stored p = Class ''alert-secondary''"
  by (simp_all add: alertClass_def lookup_def priorityClasses_def Object_prototype_def)

text \<open>A confidence is printed as the integer nearest to the double \<open>confidence * 100\<close>.\<close>

lemma toFixed_0:
  "0 \<le> x \<Longrightarrow> x < 10 ^ 21 \<Longrightarrow> toFixed 0 (Finite x) = digits (round x)"
  by (simp add: toFixed_def round_def Let_def)

lemma eighty_two: "toFixed 0 (multiply (to_double 0.82) (Finite 100)) = ''82''"
  by code_simp

lemma eighty_two_normal: "toFixed 0 (multiply (to_double (41 / 50)) (Finite 100)) = ''82''"
  using eighty_two by simp

text \<open>The example of the specification: one high-priority Narrative for forex.\<close>

lemma eurusd_high_rendering:
  "updateAssetDashboard clock ''forex'' [eurusd ''high'']
      (MultiAssetMarketIntelligence milkyway served_document)
   = ((MultiAssetMarketIntelligence milkyway served_document)
        \<lparr>document := served_document
           (''forex-intelligence-container'' \<mapsto>
              [Alert (Class ''alert-danger'') (Class ''bi-currency-exchange'') ''EURUSD''
                 ''high'' ''breakout'' ''00:00:00'' ''82''])\<rparr>,
      None)"
proof -
  have "map_of assetContainers ''forex'' = Some ''forex-intelligence-container''"
    by (simp add: assetContainers_def)
  moreover have "document (MultiAssetMarketIntelligence milkyway served_document)
                   ''forex-intelligence-container'' \<noteq> None"
    by (simp add: MultiAssetMarketIntelligence_def served_document_def assetContainers_def)
  ultimately show ?thesis
    by (simp add: updateAssetDashboard_renders)
       (simp add: MultiAssetMarketIntelligence_def narrativeElement_def eurusd_def
          alertClass_def iconClass_def lookup_def assetIcons_def priorityClasses_def
          Object_prototype_def Object_prototype_innerHTML_def clock_def eighty_two_normal)
qed

text \<open>
  C8.  The renderer replaces the region as the claim says (\<open>updateAssetDashboard_renders\<close>,
  \<open>alertClass_cases\<close>, \<open>toFixed_0\<close>), except that a priority which names a property
  every object inherits is not mapped to the neutral class:
  \<open>priorityClasses[''constructor'']\<close> is the inherited \<open>Object\<close> function, which is
  truthy, so \<open>|| 'alert-secondary'\<close> does not apply and the alert's class attribute is
  the text of that function.
\<close>

theorem inherited_priority_is_not_neutral:
  "alertClass None ''constructor'' = Builtin ''constructor''
   \<and> document (fst (updateAssetDashboard clock ''forex'' [eurusd ''constructor'']
        (MultiAssetMarketIntelligence milkyway served_document)))
        ''forex-intelligence-container''
     = Some [Alert (Builtin ''constructor'') (Class ''bi-currency-exchange'') ''EURUSD''
               ''constructor'' ''breakout'' ''00:00:00'' ''82'']"
proof -
  have "map_of assetContainers ''forex'' = Some ''forex-intelligence-container''"
    by (simp add: assetContainers_def)
  moreover have "document (MultiAssetMarketIntelligence milkyway served_document)
                   ''forex-intelligence-container'' \<noteq> None"
    by (simp add: MultiAssetMarketIntelligence_def served_document_def assetContainers_def)
  ultimately show ?thesis
    by (simp add: updateAssetDashboard_renders)
       (simp add: MultiAssetMarketIntelligence_def narrativeElement_def eurusd_def
          alertClass_def iconClass_def lookup_def assetIcons_def priorityClasses_def
          Object_prototype_def Object_prototype_innerHTML_def clock_def eighty_two_normal)
qed

subsection \<open>The asset-class keys\<close>

lemma document_append_other:
  "c \<noteq> Element x \<Longrightarrow> document (append_innerHTML c b st) x = document st x"
  by (cases c) (auto simp: append_innerHTML_def document_set_innerHTML split: option.splits)

lemma document_foldl_other:
  "c \<noteq> Element x \<Longrightarrow>
   document (foldl (\<lambda>s n. append_innerHTML c (g s n) s) st ns) x = document st x"
  by (induction ns arbitrary: st) (simp_all add: document_append_other)

lemma document_render_other:
  "c \<noteq> Element x \<Longrightarrow> document (render fmt c k ns st) x = document st x"
  by (cases c) (auto simp: render_def Let_def document_foldl_other document_set_innerHTML)

text \<open>
  A key that is neither one of the three asset classes nor the name of anything
  inherited leaves the client exactly as it was.
\<close>

lemma updateAssetDashboard_skip:
  assumes "k \<notin> {''forex'', ''crypto'', ''stocks''}"
    and "k \<notin> set Object_prototype" and "k \<noteq> ''innerHTML''"
  shows "updateAssetDashboard fmt k ns st = (st, None)"
  using assms by (simp add: updateAssetDashboard_def lookup_def assetContainers_def)

text \<open>
  An element that is not the container of the key holds what it held before, whatever
  the key.
\<close>

lemma updateAssetDashboard_other:
  assumes "(k, elem) \<notin> set assetContainers"
  shows "document (fst (updateAssetDashboard fmt k ns st)) elem = document st elem"
proof (cases "lookup (Object_prototype_innerHTML st) assetContainers k")
  case (Own e)
  then have "map_of assetContainers k = Some e"
    by (auto simp: lookup_def split: option.splits if_splits)
  with assms have "Element e \<noteq> Element elem"
    by (auto dest: map_of_SomeD)
  with Own show ?thesis
    by (auto simp: updateAssetDashboard_def document_render_other split: option.splits)
next
  case (Inherited name)
  then show ?thesis
    by (simp add: updateAssetDashboard_def document_render_other)
next
  case (InheritedMarkup h)
  then show ?thesis
    by (simp add: updateAssetDashboard_def)
next
  case Undefined
  then show ?thesis
    by (simp add: updateAssetDashboard_def)
qed

lemma updateAllAssetDashboards_other:
  "\<forall>k \<in> fst ` set payload. (k, elem) \<notin> set assetContainers \<Longrightarrow>
   document (fst (updateAllAssetDashboards fmt payload st)) elem = document st elem"
proof (induction payload arbitrary: st)
  case Nil
  then show ?case by simp
next
  case (Cons p payload)
  obtain k ns where p: "p = (k, ns)" by (cases p)
  obtain st' thrown where u: "updateAssetDashboard fmt k ns st = (st', thrown)"
    by (cases "updateAssetDashboard fmt k ns st")
  from Cons.prems p have "(k, elem) \<notin> set assetContainers" by simp
  from updateAssetDashboard_other [OF this, of fmt ns st] u
  have kept: "document st' elem = document st elem" by simp
  from Cons.prems have "\<forall>k \<in> fst ` set payload. (k, elem) \<notin> set assetContainers"
    by simp
  from Cons.IH [OF this, of st'] kept p u show ?case
    by (cases thrown) (simp_all add: andThen_def)
qed

text \<open>
  C10.  A key that names something inherited is not skipped.  \<open>__proto__\<close> finds
  \<open>Object.prototype\<close>, which is truthy, and the function stores its markup on the
  prototype; from then on the key \<open>innerHTML\<close> finds that markup, a string, and the
  store to its \<open>innerHTML\<close> throws a TypeError, which ends the loop: the \<open>forex\<close>
  key that follows in the same payload is never rendered, and neither is the
  last-updated time, where the payload that has only the \<open>forex\<close> key does render
  the region.  (A key that is neither an asset class nor inherited is skipped,
  \<open>updateAssetDashboard_skip\<close>, and the regions of keys that the payload does not have
  are kept, \<open>updateAllAssetDashboards_other\<close>.)
\<close>

theorem inherited_asset_keys_are_not_skipped:
  "mi_parse polluting_text
     = Some (Object \<lparr>msg_type = Some ''market_intelligence'',
                      msg_data = Some [(''__proto__'', []), (''innerHTML'', []),
                                       (''forex'', [])],
                      msg_timestamp = Some ''2024-01-01T00:00:00Z'',
                      msg_message = None\<rparr>)
   \<and> snd (handleMessage_try mi_parse clock polluting_text
            (MultiAssetMarketIntelligence milkyway served_document)) = Some TypeError
   \<and> Object_prototype_innerHTML
        (fst (handleMessage_try mi_parse clock polluting_text
               (MultiAssetMarketIntelligence milkyway served_document)))
     = Some [NoData (Builtin ''__proto__'') ''__proto__'']
   \<and> document
        (fst (handleMessage_try mi_parse clock polluting_text
               (MultiAssetMarketIntelligence milkyway served_document)))
        ''forex-intelligence-container''
     = Some [Served ''forex-intelligence-container'']
   \<and> document
        (fst (handleMessage_try mi_parse clock polluting_text
               (MultiAssetMarketIntelligence milkyway served_document)))
        ''last-updated-time''
     = Some [Served ''last-updated-time'']
   \<and> document
        (fst (updateAllAssetDashboards clock [(''forex'', [])]
               (MultiAssetMarketIntelligence milkyway served_document)))
        ''forex-intelligence-container''
     = Some [NoData (Class ''bi-currency-exchange'') ''forex'']"
proof -
  let ?client = "MultiAssetMarketIntelligence milkyway served_document"
  let ?polluted = "?client\<lparr>builtins := (builtins ?client)
                     (''__proto__'' \<mapsto> [NoData (Builtin ''__proto__'') ''__proto__''])\<rparr>"
  have parse: "mi_parse polluting_text
                 = Some (Object \<lparr>msg_type = Some ''market_intelligence'',
                          msg_data = Some [(''__proto__'', []), (''innerHTML'', []),
                                           (''forex'', [])],
                          msg_timestamp = Some ''2024-01-01T00:00:00Z'',
                          msg_message = None\<rparr>)"
    by (simp add: mi_parse_def polluting_text_def heartbeat_text_def)
  have first: "updateAssetDashboard clock ''__proto__'' [] ?client = (?polluted, None)"
    by (simp add: updateAssetDashboard_def lookup_def assetContainers_def Object_prototype_def
        Object_prototype_innerHTML_def render_def set_innerHTML_def noDataElement_def
        assetIcons_def MultiAssetMarketIntelligence_def)
  have second: "updateAssetDashboard clock ''innerHTML'' [] ?polluted
                  = (?polluted, Some TypeError)"
    by (simp add: updateAssetDashboard_def lookup_def assetContainers_def Object_prototype_def
        Object_prototype_innerHTML_def)
  have "handleMessage_try mi_parse clock polluting_text ?client = (?polluted, Some TypeError)"
    by (simp add: handleMessage_try_def parse first second)
  moreover have "map_of assetContainers ''forex'' = Some ''forex-intelligence-container''"
    by (simp add: assetContainers_def)
  moreover have "document ?client ''forex-intelligence-container'' \<noteq> None"
    by (simp add: MultiAssetMarketIntelligence_def served_document_def assetContainers_def)
  ultimately show ?thesis
    by (simp add: parse Object_prototype_innerHTML_def updateAssetDashboard_renders)
       (simp add: MultiAssetMarketIntelligence_def served_document_def assetContainers_def
          noDataElement_def lookup_def assetIcons_def)
qed


end
